theory Spec2Isabelle
  imports Main "HOL-Library.Word"
begin

unbundle bit_operations_syntax

section \<open>Common types\<close>

type_synonym byte = "8 word"

text \<open>
  A JavaScript call either returns or throws. Every operation of the model returns the
  state it leaves behind together with an outcome, so that the mutations made before a
  \<^verbatim>\<open>throw\<close> stay visible.
\<close>

datatype 'a outcome = Returned 'a | Threw string

section \<open>SIP handler (src/protocols/sip.ts)\<close>

datatype sip_session_state = Setup | Proceeding | Alerting | Connected | Disconnect

datatype call_direction = Inbound | Outbound

text \<open>
  \<^verbatim>\<open>CallSession\<close> of src/types/index.ts. A Call-ID read from a header that is absent is
  \<^verbatim>\<open>undefined\<close>; it is \<open>None\<close> here. The RTP session is only ever written by
  \<^verbatim>\<open>parseSDP\<close>, which the model takes as a parameter.
\<close>

record 'r call_session =
  cs_id :: "string option"
  cs_sipCallId :: "string option"
  cs_rtpSession :: "'r option"
  cs_state :: sip_session_state
  cs_direction :: call_direction
  cs_startTime :: nat

record sip_message =
  sm_method :: string
  sm_uri :: string
  sm_headers :: "string \<rightharpoonup> string"
  sm_body :: "string option"

datatype 'r sip_event =
    SessionCreated "'r call_session"
  | SessionUpdated "'r call_session"
  | SessionTerminated "'r call_session"
  | SipMessageOut sip_message
  | SipIncomingCall "'r call_session" sip_message
  | SipResponse "string option" nat sip_message

record 'r sip_handler =
  sessions :: "string option \<rightharpoonup> 'r call_session"
  sip_emitted :: "'r sip_event list"

definition createSession ::
  "nat \<Rightarrow> string option \<Rightarrow> call_direction \<Rightarrow> 'r sip_handler \<Rightarrow> 'r sip_handler \<times> 'r call_session" where
  "createSession now callId dir h =
     (let session = \<lparr> cs_id = callId, cs_sipCallId = callId, cs_rtpSession = None,
                        cs_state = Setup, cs_direction = dir, cs_startTime = now \<rparr>
      in (h\<lparr> sessions := (sessions h)(callId \<mapsto> session),
              sip_emitted := sip_emitted h @ [SessionCreated session] \<rparr>, session))"

definition updateSessionState ::
  "string option \<Rightarrow> sip_session_state \<Rightarrow> 'r sip_handler \<Rightarrow> 'r sip_handler" where
  "updateSessionState callId st h =
     (case sessions h callId of
        None \<Rightarrow> h
      | Some session \<Rightarrow>
          (let session' = session\<lparr> cs_state := st \<rparr>
           in h\<lparr> sessions := (sessions h)(callId \<mapsto> session'),
                 sip_emitted := sip_emitted h @ [SessionUpdated session'] \<rparr>))"

definition terminateSession :: "string option \<Rightarrow> 'r sip_handler \<Rightarrow> 'r sip_handler" where
  "terminateSession callId h =
     (case sessions h callId of
        None \<Rightarrow> h
      | Some session \<Rightarrow>
          h\<lparr> sessions := (sessions h)(callId := None),
             sip_emitted := sip_emitted h @ [SessionTerminated (session\<lparr> cs_state := Disconnect \<rparr>)] \<rparr>)"

fun show_nat_aux :: "nat \<Rightarrow> nat \<Rightarrow> string" where
  "show_nat_aux 0 n = []"
| "show_nat_aux (Suc fuel) n =
     (if n < 10 then [char_of (48 + n)]
      else show_nat_aux fuel (n div 10) @ [char_of (48 + n mod 10)])"

definition show_nat :: "nat \<Rightarrow> string" where
  "show_nat n = show_nat_aux (Suc n) n"

definition show_callId :: "string option \<Rightarrow> string" where
  "show_callId c = (case c of None \<Rightarrow> ''undefined'' | Some s \<Rightarrow> s)"

definition callId_header :: "string option \<Rightarrow> string \<rightharpoonup> string" where
  "callId_header callId = (\<lambda>k. if k = ''Call-ID'' then callId else None)"

definition sendResponse ::
  "string option \<Rightarrow> nat \<Rightarrow> string \<Rightarrow> string option \<Rightarrow> 'r sip_handler
     \<Rightarrow> 'r sip_handler \<times> unit outcome" where
  "sendResponse callId statusCode reasonPhrase sdp h =
     (case sessions h callId of
        None \<Rightarrow> (h, Threw (''Session not found: '' @ show_callId callId))
      | Some session \<Rightarrow>
          (let response = \<lparr> sm_method = show_nat statusCode @ '' '' @ reasonPhrase,
                             sm_uri = '''',
                             sm_headers = (callId_header callId)(''CSeq'' \<mapsto> ''1 INVITE''),
                             sm_body = sdp \<rparr>;
               session' = (if 200 \<le> statusCode \<and> statusCode < 300
                             then session\<lparr> cs_state := Connected \<rparr>
                           else if 180 \<le> statusCode \<and> statusCode < 200
                             then session\<lparr> cs_state := Alerting \<rparr>
                           else session)
           in (h\<lparr> sessions := (sessions h)(callId \<mapsto> session'),
                   sip_emitted := sip_emitted h @ [SipMessageOut response] \<rparr>, Returned ())))"

definition handleInvite ::
  "(string \<Rightarrow> 'r option \<Rightarrow> 'r option) \<Rightarrow> nat \<Rightarrow> sip_message \<Rightarrow> 'r sip_handler \<Rightarrow> 'r sip_handler" where
  "handleInvite parseSDP now message h =
     (let callId = sm_headers message ''Call-ID'';
          (h1, session) = createSession now callId Inbound h;
          session' = (case sm_body message of
                        None \<Rightarrow> session
                      | Some body \<Rightarrow>
                          if body = [] then session
                          else session\<lparr> cs_rtpSession := parseSDP body (cs_rtpSession session) \<rparr>)
      in h1\<lparr> sessions := (sessions h1)(callId \<mapsto> session'),
             sip_emitted := sip_emitted h1 @ [SipIncomingCall session' message] \<rparr>)"

definition handleBye :: "string option \<Rightarrow> 'r sip_handler \<Rightarrow> 'r sip_handler \<times> unit outcome" where
  "handleBye callId h = sendResponse callId 200 ''OK'' None (terminateSession callId h)"

definition is_digit :: "char \<Rightarrow> bool" where
  "is_digit c = (48 \<le> (of_char c :: nat) \<and> (of_char c :: nat) \<le> 57)"

text \<open>
  \<^verbatim>\<open>parseInt\<close> of a string that starts with a digit: the value of its leading digits. It is
  kept exact here; JavaScript rounds it to a double, which is the same number below \<open>2^53\<close>
  and compares alike with 200, 300 and 400 above.
\<close>

definition parseInt_prefix :: "string \<Rightarrow> nat" where
  "parseInt_prefix s = foldl (\<lambda>acc c. 10 * acc + ((of_char c :: nat) - 48)) 0 (takeWhile is_digit s)"

definition handleResponse :: "sip_message \<Rightarrow> 'r sip_handler \<Rightarrow> 'r sip_handler" where
  "handleResponse message h =
     (let callId = sm_headers message ''Call-ID'';
          statusCode = parseInt_prefix (sm_method message);
          h1 = (if 200 \<le> statusCode \<and> statusCode < 300 then updateSessionState callId Connected h
                else if 400 \<le> statusCode then terminateSession callId h
                else h)
      in h1\<lparr> sip_emitted := sip_emitted h1 @ [SipResponse callId statusCode message] \<rparr>)"

text \<open>\<^verbatim>\<open>message.method.match(/^\d{3}/)\<close>: the method starts with three decimal digits.\<close>

definition starts_with_3_digits :: "string \<Rightarrow> bool" where
  "starts_with_3_digits s = (3 \<le> length s \<and> list_all is_digit (take 3 s))"

definition sip_handleIncomingMessage ::
  "(string \<Rightarrow> 'r option \<Rightarrow> 'r option) \<Rightarrow> nat \<Rightarrow> sip_message \<Rightarrow> 'r sip_handler
     \<Rightarrow> 'r sip_handler \<times> unit outcome" where
  "sip_handleIncomingMessage parseSDP now message h =
     (let callId = sm_headers message ''Call-ID''
      in if sm_method message = ''INVITE'' then (handleInvite parseSDP now message h, Returned ())
         else if sm_method message = ''BYE'' then handleBye callId h
         else if starts_with_3_digits (sm_method message) then (handleResponse message h, Returned ())
         else (h, Returned ()))"


fun is_message_out :: "'r sip_event \<Rightarrow> bool" where
  "is_message_out (SipMessageOut m) = True"
| "is_message_out _ = False"

text \<open>Concrete handler and message used to exercise the BYE path.\<close>

definition bye_msg :: sip_message where
  "bye_msg = \<lparr> sm_method = ''BYE'', sm_uri = [],
               sm_headers = [''Call-ID'' \<mapsto> ''abc''], sm_body = None \<rparr>"

definition sip_one_session :: "unit sip_handler" where
  "sip_one_session =
     fst (createSession 0 (Some ''abc'') Inbound \<lparr> sessions = Map.empty, sip_emitted = [] \<rparr>)"

section \<open>ISUP handler (SigtranISUPHandler)\<close>

datatype isup_call_state = Idle | OutgoingSetup | IncomingSetup | Answered | Releasing

record isup_call =
  call_cic :: nat
  call_state :: isup_call_state
  call_callingNumber :: "string option"
  call_calledNumber :: "string option"
  call_startTime :: nat

record isup_message =
  im_messageType :: nat
  im_cic :: nat
  im_parameters :: "byte list"

datatype isup_event =
    IsupStarted
  | IsupStopped
  | IsupMessageOut isup_message
  | IsupIncomingCall isup_call
  | IsupCallProgress isup_call
  | IsupCallAnswered isup_call
  | IsupCallReleased isup_call nat
  | IsupCallCleared isup_call
  | IsupUnknownMessage isup_message

text \<open>
  \<^verbatim>\<open>availableCICs\<close> is a JavaScript \<^verbatim>\<open>Set\<close>, which iterates in insertion order: it is a
  list without duplicates, \<^verbatim>\<open>add\<close> appends a value that is not yet a member and
  \<^verbatim>\<open>delete\<close> removes it. \<^verbatim>\<open>calls\<close> is a \<^verbatim>\<open>Map\<close> from CIC to call.
\<close>

definition set_add :: "'a \<Rightarrow> 'a list \<Rightarrow> 'a list" where
  "set_add x xs = (if x \<in> set xs then xs else xs @ [x])"

definition set_delete :: "'a \<Rightarrow> 'a list \<Rightarrow> 'a list" where
  "set_delete x xs = filter (\<lambda>y. y \<noteq> x) xs"

record isup_handler =
  calls :: "nat \<rightharpoonup> isup_call"
  isup_isRunning :: bool
  availableCICs :: "nat list"
  isup_emitted :: "isup_event list"

text \<open>The constructor fills the pool with the CICs 1 to 1000, in that order.\<close>

definition new_isup_handler :: isup_handler where
  "new_isup_handler =
     \<lparr> calls = Map.empty, isup_isRunning = False, availableCICs = [1 ..< 1001], isup_emitted = [] \<rparr>"

definition isup_emit :: "isup_event \<Rightarrow> isup_handler \<Rightarrow> isup_handler" where
  "isup_emit e h = h\<lparr> isup_emitted := isup_emitted h @ [e] \<rparr>"

definition isup_start :: "isup_handler \<Rightarrow> isup_handler \<times> unit outcome" where
  "isup_start h =
     (if isup_isRunning h then (h, Threw ''Sigtran ISUP handler already running'')
      else (isup_emit IsupStarted (h\<lparr> isup_isRunning := True \<rparr>), Returned ()))"

definition isup_stop :: "isup_handler \<Rightarrow> isup_handler \<times> unit outcome" where
  "isup_stop h =
     (if \<not> isup_isRunning h then (h, Returned ())
      else (isup_emit IsupStopped (h\<lparr> isup_isRunning := False, calls := Map.empty \<rparr>), Returned ()))"

text \<open>\<^verbatim>\<open>allocateCIC\<close>: the first element of \<^verbatim>\<open>Array.from(this.availableCICs)\<close>.\<close>

definition allocateCIC :: "isup_handler \<Rightarrow> isup_handler \<times> nat option" where
  "allocateCIC h =
     (case availableCICs h of
        [] \<Rightarrow> (h, None)
      | cic # rest \<Rightarrow> (h\<lparr> availableCICs := set_delete cic (availableCICs h) \<rparr>, Some cic))"

subsection \<open>Parameter encoding\<close>

text \<open>
  \<^verbatim>\<open>Buffer.writeUInt8(value, offset)\<close> throws a RangeError when the offset is outside the
  buffer or the value outside 0..255; \<^verbatim>\<open>readUInt8(offset)\<close> throws outside the buffer.
  \<open>None\<close> stands for that exception.
\<close>

definition writeUInt8 :: "nat \<Rightarrow> nat \<Rightarrow> byte list \<Rightarrow> byte list option" where
  "writeUInt8 v off buf = (if off < length buf \<and> v \<le> 255 then Some (buf[off := of_nat v]) else None)"

definition readUInt8 :: "byte list \<Rightarrow> nat \<Rightarrow> byte option" where
  "readUInt8 buf off = (if off < length buf then Some (buf ! off) else None)"

text \<open>\<^verbatim>\<open>parseInt(c, 10)\<close> of one character, as used under \<^verbatim>\<open><<\<close> and \<^verbatim>\<open>|\<close>, where NaN is 0.\<close>

definition digit_or_0 :: "char \<Rightarrow> nat" where
  "digit_or_0 c = (if is_digit c then (of_char c :: nat) - 48 else 0)"

fun write_digits :: "string \<Rightarrow> nat \<Rightarrow> byte list \<Rightarrow> byte list option" where
  "write_digits [] off buf = Some buf"
| "write_digits [c1] off buf = writeUInt8 (digit_or_0 c1) off buf"
| "write_digits (c1 # c2 # cs) off buf =
     (case writeUInt8 (digit_or_0 c2 * 16 + digit_or_0 c1) off buf of
        None \<Rightarrow> None
      | Some buf' \<Rightarrow> write_digits cs (Suc off) buf')"

text \<open>Each writer returns the buffer and the number it reports as written (length + 2).\<close>

definition writeCalledPartyNumber :: "byte list \<Rightarrow> nat \<Rightarrow> string \<Rightarrow> (byte list \<times> nat) option" where
  "writeCalledPartyNumber buf off number =
     (let len = (length number + 1) div 2 + 1
      in case writeUInt8 0x04 off buf of None \<Rightarrow> None | Some b1 \<Rightarrow>
         case writeUInt8 len (off + 1) b1 of None \<Rightarrow> None | Some b2 \<Rightarrow>
         case writeUInt8 0x83 (off + 2) b2 of None \<Rightarrow> None | Some b3 \<Rightarrow>
         case write_digits number (off + 3) b3 of None \<Rightarrow> None | Some b4 \<Rightarrow>
         Some (b4, len + 2))"

definition writeCallingPartyNumber :: "byte list \<Rightarrow> nat \<Rightarrow> string \<Rightarrow> (byte list \<times> nat) option" where
  "writeCallingPartyNumber buf off number =
     (let len = (length number + 1) div 2 + 2
      in case writeUInt8 0x0A off buf of None \<Rightarrow> None | Some b1 \<Rightarrow>
         case writeUInt8 len (off + 1) b1 of None \<Rightarrow> None | Some b2 \<Rightarrow>
         case writeUInt8 0x83 (off + 2) b2 of None \<Rightarrow> None | Some b3 \<Rightarrow>
         case writeUInt8 0x00 (off + 3) b3 of None \<Rightarrow> None | Some b4 \<Rightarrow>
         case write_digits number (off + 4) b4 of None \<Rightarrow> None | Some b5 \<Rightarrow>
         Some (b5, len + 2))"

definition writeNatureOfConnectionIndicators :: "byte list \<Rightarrow> nat \<Rightarrow> (byte list \<times> nat) option" where
  "writeNatureOfConnectionIndicators buf off =
     (case writeUInt8 0x06 off buf of None \<Rightarrow> None | Some b1 \<Rightarrow>
      case writeUInt8 0x01 (off + 1) b1 of None \<Rightarrow> None | Some b2 \<Rightarrow>
      case writeUInt8 0x00 (off + 2) b2 of None \<Rightarrow> None | Some b3 \<Rightarrow>
      Some (b3, 3))"

definition buildIAMParameters :: "string \<Rightarrow> string \<Rightarrow> byte list option" where
  "buildIAMParameters callingNumber calledNumber =
     (case writeCalledPartyNumber (replicate 64 0) 0 calledNumber of None \<Rightarrow> None | Some (b1, n1) \<Rightarrow>
      case writeCallingPartyNumber b1 n1 callingNumber of None \<Rightarrow> None | Some (b2, n2) \<Rightarrow>
      case writeNatureOfConnectionIndicators b2 (n1 + n2) of None \<Rightarrow> None | Some (b3, n3) \<Rightarrow>
      Some (take (n1 + n2 + n3) b3))"

text \<open>
  \<^verbatim>\<open>0x80 | cause\<close>: the operands of \<^verbatim>\<open>|\<close> are taken as 32-bit integers and the result is
  signed; \<^verbatim>\<open>writeUInt8\<close> throws unless it lies within 0..255.
\<close>

definition buildCauseParameter :: "nat \<Rightarrow> byte list option" where
  "buildCauseParameter cause =
     (let v = sint (0x80 OR (of_nat cause :: 32 word))
      in if 0 \<le> v \<and> v \<le> 255 then Some [0x12, 0x02, 0x80, of_int v] else None)"

subsection \<open>Parameter decoding\<close>

definition parseDigits :: "byte list \<Rightarrow> string" where
  "parseDigits buf =
     concat (map (\<lambda>b. let digit1 = unat (b AND 0x0F); digit2 = unat (drop_bit 4 b AND 0x0F)
                       in show_nat digit1 @ (if digit2 \<noteq> 0 then show_nat digit2 else [])) buf)"

text \<open>
  The loop of \<^verbatim>\<open>parseIAMParameters\<close> over the remaining octets: tag, length, then
  \<^verbatim>\<open>length\<close> octets of value. Reading the length octet past the end throws.
\<close>

fun parseIAMParameters ::
  "byte list \<Rightarrow> string option \<times> string option \<Rightarrow> (string option \<times> string option) option" where
  "parseIAMParameters [] acc = Some acc"
| "parseIAMParameters [tag] acc = None"
| "parseIAMParameters (tag # len # rest) (callingNumber, calledNumber) =
     parseIAMParameters (drop (unat len) rest)
       (if tag = 0x04 then (callingNumber, Some (parseDigits (drop 1 (take (unat len) rest))))
        else if tag = 0x0A then (Some (parseDigits (drop 2 (take (unat len) rest))), calledNumber)
        else (callingNumber, calledNumber))"

fun parseCauseParameter :: "byte list \<Rightarrow> nat option" where
  "parseCauseParameter [] = Some 16"
| "parseCauseParameter [tag] = None"
| "parseCauseParameter (tag # len # rest) =
     (if tag = 0x12 then
        (case rest of
           _ # v # _ \<Rightarrow> Some (unat (v AND 0x7F))
         | _ \<Rightarrow> None)
      else parseCauseParameter (drop (unat len) rest))"

subsection \<open>Operations\<close>

definition sendIAM :: "nat \<Rightarrow> string \<Rightarrow> string \<Rightarrow> isup_handler \<Rightarrow> isup_handler \<times> nat option outcome" where
  "sendIAM now callingNumber calledNumber h =
     (case allocateCIC h of
        (h1, None) \<Rightarrow> (h1, Returned None)
      | (h1, Some cic) \<Rightarrow>
          if cic = 0 then (h1, Returned None)
          else
            (let call = \<lparr> call_cic = cic, call_state = OutgoingSetup,
                          call_callingNumber = Some callingNumber,
                          call_calledNumber = Some calledNumber, call_startTime = now \<rparr>;
                 h2 = h1\<lparr> calls := (calls h1)(cic \<mapsto> call) \<rparr>
             in case buildIAMParameters callingNumber calledNumber of
                  None \<Rightarrow> (h2, Threw ''RangeError'')
                | Some ps \<Rightarrow>
                    (isup_emit (IsupMessageOut \<lparr> im_messageType = 0x01, im_cic = cic,
                                                 im_parameters = ps \<rparr>) h2,
                     Returned (Some cic))))"

definition sendACM :: "nat \<Rightarrow> isup_handler \<Rightarrow> isup_handler \<times> unit outcome" where
  "sendACM cic h =
     (case calls h cic of
        None \<Rightarrow> (h, Threw (''Call not found for CIC: '' @ show_nat cic))
      | Some call \<Rightarrow>
          (isup_emit (IsupMessageOut \<lparr> im_messageType = 0x06, im_cic = cic, im_parameters = [] \<rparr>) h,
           Returned ()))"

definition sendANM :: "nat \<Rightarrow> isup_handler \<Rightarrow> isup_handler \<times> unit outcome" where
  "sendANM cic h =
     (case calls h cic of
        None \<Rightarrow> (h, Threw (''Call not found for CIC: '' @ show_nat cic))
      | Some call \<Rightarrow>
          (isup_emit (IsupMessageOut \<lparr> im_messageType = 0x09, im_cic = cic, im_parameters = [] \<rparr>)
             (h\<lparr> calls := (calls h)(cic \<mapsto> call\<lparr> call_state := Answered \<rparr>) \<rparr>),
           Returned ()))"

definition sendREL :: "nat \<Rightarrow> nat \<Rightarrow> isup_handler \<Rightarrow> isup_handler \<times> unit outcome" where
  "sendREL cic cause h =
     (case calls h cic of
        None \<Rightarrow> (h, Returned ())
      | Some call \<Rightarrow>
          (let h1 = h\<lparr> calls := (calls h)(cic \<mapsto> call\<lparr> call_state := Releasing \<rparr>) \<rparr>
           in case buildCauseParameter cause of
                None \<Rightarrow> (h1, Threw ''RangeError'')
              | Some ps \<Rightarrow>
                  (isup_emit (IsupMessageOut \<lparr> im_messageType = 0x0C, im_cic = cic,
                                               im_parameters = ps \<rparr>) h1,
                   Returned ())))"

definition sendRLC :: "nat \<Rightarrow> isup_handler \<Rightarrow> isup_handler" where
  "sendRLC cic h =
     (let h1 = (case calls h cic of
                  None \<Rightarrow> h
                | Some call \<Rightarrow> h\<lparr> calls := (calls h)(cic := None),
                                  availableCICs := set_add cic (availableCICs h) \<rparr>)
      in isup_emit (IsupMessageOut \<lparr> im_messageType = 0x10, im_cic = cic, im_parameters = [] \<rparr>) h1)"

definition handleIAM :: "nat \<Rightarrow> isup_message \<Rightarrow> isup_handler \<Rightarrow> isup_handler \<times> unit outcome" where
  "handleIAM now message h =
     (case parseIAMParameters (im_parameters message) (None, None) of
        None \<Rightarrow> (h, Threw ''RangeError'')
      | Some (callingNumber, calledNumber) \<Rightarrow>
          (let call = \<lparr> call_cic = im_cic message, call_state = IncomingSetup,
                        call_callingNumber = callingNumber, call_calledNumber = calledNumber,
                        call_startTime = now \<rparr>
           in (isup_emit (IsupIncomingCall call)
                 (h\<lparr> calls := (calls h)(im_cic message \<mapsto> call),
                     availableCICs := set_delete (im_cic message) (availableCICs h) \<rparr>),
               Returned ())))"

definition handleACM :: "isup_message \<Rightarrow> isup_handler \<Rightarrow> isup_handler" where
  "handleACM message h =
     (case calls h (im_cic message) of
        None \<Rightarrow> h
      | Some call \<Rightarrow> isup_emit (IsupCallProgress call) h)"

definition handleANM :: "isup_message \<Rightarrow> isup_handler \<Rightarrow> isup_handler" where
  "handleANM message h =
     (case calls h (im_cic message) of
        None \<Rightarrow> h
      | Some call \<Rightarrow>
          (let call' = call\<lparr> call_state := Answered \<rparr>
           in isup_emit (IsupCallAnswered call') (h\<lparr> calls := (calls h)(im_cic message \<mapsto> call') \<rparr>)))"

definition handleREL :: "isup_message \<Rightarrow> isup_handler \<Rightarrow> isup_handler \<times> unit outcome" where
  "handleREL message h =
     (case calls h (im_cic message) of
        None \<Rightarrow> (h, Returned ())
      | Some call \<Rightarrow>
          (let call' = call\<lparr> call_state := Releasing \<rparr>;
               h1 = h\<lparr> calls := (calls h)(im_cic message \<mapsto> call') \<rparr>
           in case parseCauseParameter (im_parameters message) of
                None \<Rightarrow> (h1, Threw ''RangeError'')
              | Some cause \<Rightarrow>
                  (sendRLC (im_cic message) (isup_emit (IsupCallReleased call' cause) h1),
                   Returned ())))"

definition handleRLC :: "isup_message \<Rightarrow> isup_handler \<Rightarrow> isup_handler" where
  "handleRLC message h =
     (case calls h (im_cic message) of
        None \<Rightarrow> h
      | Some call \<Rightarrow>
          isup_emit (IsupCallCleared call)
            (h\<lparr> calls := (calls h)(im_cic message := None),
                availableCICs := set_add (im_cic message) (availableCICs h) \<rparr>))"

definition isup_handleIncomingMessage ::
  "nat \<Rightarrow> isup_message \<Rightarrow> isup_handler \<Rightarrow> isup_handler \<times> unit outcome" where
  "isup_handleIncomingMessage now message h =
     (if im_messageType message = 0x01 then handleIAM now message h
      else if im_messageType message = 0x06 then (handleACM message h, Returned ())
      else if im_messageType message = 0x09 then (handleANM message h, Returned ())
      else if im_messageType message = 0x0C then handleREL message h
      else if im_messageType message = 0x10 then (handleRLC message h, Returned ())
      else (isup_emit (IsupUnknownMessage message) h, Returned ()))"

text \<open>The public operations of the handler, and the state one of them leaves behind.\<close>

datatype isup_op =
    OpStart
  | OpStop
  | OpSendIAM nat string string
  | OpSendACM nat
  | OpSendANM nat
  | OpSendREL nat nat
  | OpSendRLC nat
  | OpHandleIncomingMessage nat isup_message

fun isup_apply :: "isup_op \<Rightarrow> isup_handler \<Rightarrow> isup_handler" where
  "isup_apply OpStart h = fst (isup_start h)"
| "isup_apply OpStop h = fst (isup_stop h)"
| "isup_apply (OpSendIAM now a b) h = fst (sendIAM now a b h)"
| "isup_apply (OpSendACM cic) h = fst (sendACM cic h)"
| "isup_apply (OpSendANM cic) h = fst (sendANM cic h)"
| "isup_apply (OpSendREL cic cause) h = fst (sendREL cic cause h)"
| "isup_apply (OpSendRLC cic) h = sendRLC cic h"
| "isup_apply (OpHandleIncomingMessage now m) h = fst (isup_handleIncomingMessage now m h)"

text \<open>No CIC is at once free and the key of an active call.\<close>

definition cic_disjoint :: "isup_handler \<Rightarrow> bool" where
  "cic_disjoint h = (set (availableCICs h) \<inter> dom (calls h) = {})"

text \<open>
  Two states used to exercise the pool: a pool holding only the CICs 5 and 9 with CIC 3 in
  use, and the handler after its first \<^verbatim>\<open>sendIAM\<close>.
\<close>

definition small_pool :: isup_handler where
  "small_pool =
     \<lparr> calls = [3 \<mapsto> \<lparr> call_cic = 3, call_state = Answered, call_callingNumber = None,
                         call_calledNumber = None, call_startTime = 0 \<rparr>],
       isup_isRunning = True, availableCICs = [5, 9], isup_emitted = [] \<rparr>"

definition after_first_iam :: isup_handler where
  "after_first_iam = fst (sendIAM 0 ''100'' ''200'' new_isup_handler)"

section \<open>Protocol translator: ISUP REL to SIP BYE (src/interfaces/freetdm.ts)\<close>

text \<open>
  \<^verbatim>\<open>ProtocolTranslationRules\<close>: of the four maps only \<^verbatim>\<open>causeCodeMapping\<close> is read on
  this path. The context carries the session's SIP Call-ID, which may be undefined.
\<close>

record translation_rules =
  causeCodeMapping :: "nat \<rightharpoonup> nat"

record translation_context =
  ctx_sipCallId :: "string option"
  ctx_variant :: "string option"

text \<open>\<^verbatim>\<open>parseISUPCause\<close> does not read its argument.\<close>

definition parseISUPCause :: "byte list \<Rightarrow> nat" where
  "parseISUPCause parameters = 16"

definition reasonTexts :: "(nat \<times> string) list" where
  "reasonTexts =
     [(1, ''Unallocated number''), (16, ''Normal call clearing''), (17, ''User busy''),
      (18, ''No user responding''), (19, ''No answer from user''), (21, ''Call rejected''),
      (22, ''Number changed''), (27, ''Destination out of order''),
      (28, ''Invalid number format''), (31, ''Normal, unspecified''),
      (34, ''No circuit/channel available''), (38, ''Network out of order''),
      (41, ''Temporary failure''), (42, ''Switching equipment congestion'')]"

definition getQ850ReasonText :: "nat \<Rightarrow> string" where
  "getQ850ReasonText cause = (case map_of reasonTexts cause of None \<Rightarrow> ''Unknown'' | Some t \<Rightarrow> t)"

text \<open>\<^verbatim>\<open>x || ''\<close> on an optional string: undefined and the empty string both give ''.\<close>

definition or_empty :: "string option \<Rightarrow> string" where
  "or_empty s = (case s of None \<Rightarrow> [] | Some t \<Rightarrow> t)"

definition reason_header :: "nat \<Rightarrow> string" where
  "reason_header cause =
     ''Q.850;cause='' @ show_nat cause @ '';text='' @ [CHR 0x22] @ getQ850ReasonText cause @ [CHR 0x22]"

definition translateRELToBye ::
  "isup_message \<Rightarrow> translation_rules \<Rightarrow> translation_context \<Rightarrow> sip_message" where
  "translateRELToBye isupMessage rules context =
     (let cause = parseISUPCause (im_parameters isupMessage);
          sipCode = (case causeCodeMapping rules cause of None \<Rightarrow> 500
                     | Some c \<Rightarrow> if c = 0 then 500 else c)
      in \<lparr> sm_method = ''BYE'',
           sm_uri = [],
           sm_headers = [''Call-ID'' \<mapsto> or_empty (ctx_sipCallId context),
                         ''CSeq'' \<mapsto> ''2 BYE'',
                         ''Reason'' \<mapsto> reason_header cause],
           sm_body = None \<rparr>)"

text \<open>
  \<^verbatim>\<open>translateISUPToSIPT\<close> looks the rules of the variant up (default \<^verbatim>\<open>itu\<close>) and
  dispatches on the message type; the translations of IAM, ACM and ANM are parameters here.
\<close>

definition translateISUPToSIPT ::
  "(string \<rightharpoonup> translation_rules) \<Rightarrow>
   (isup_message \<Rightarrow> translation_rules \<Rightarrow> translation_context \<Rightarrow> sip_message) \<Rightarrow>
   (isup_message \<Rightarrow> translation_rules \<Rightarrow> translation_context \<Rightarrow> sip_message) \<Rightarrow>
   (isup_message \<Rightarrow> translation_rules \<Rightarrow> translation_context \<Rightarrow> sip_message) \<Rightarrow>
   isup_message \<Rightarrow> translation_context \<Rightarrow> sip_message outcome" where
  "translateISUPToSIPT translationRules translateIAM translateACM translateANM isupMessage context =
     (let variant = (case ctx_variant context of None \<Rightarrow> ''itu''
                     | Some v \<Rightarrow> if v = [] then ''itu'' else v)
      in case translationRules (variant @ ''-to-sip'') of
           None \<Rightarrow> Threw (''No translation rules found for variant: '' @ variant)
         | Some rules \<Rightarrow>
             if im_messageType isupMessage = 0x01 then Returned (translateIAM isupMessage rules context)
             else if im_messageType isupMessage = 0x06 then Returned (translateACM isupMessage rules context)
             else if im_messageType isupMessage = 0x09 then Returned (translateANM isupMessage rules context)
             else if im_messageType isupMessage = 0x0C then Returned (translateRELToBye isupMessage rules context)
             else Threw (''Unsupported ISUP message type: '' @ show_nat (im_messageType isupMessage)))"

text \<open>
  The REL of the end-to-end scenario: CIC 7, cause parameter (tag 0x12, length 2, location
  octet 0x80, cause octet 0x80 + 17), and a rule table for the ITU variant holding the entry
  for cause 17.
\<close>

definition rel_cause_17 :: isup_message where
  "rel_cause_17 = \<lparr> im_messageType = 0x0C, im_cic = 7, im_parameters = [0x12, 0x02, 0x80, 0x91] \<rparr>"

definition itu_rules :: "string \<rightharpoonup> translation_rules" where
  "itu_rules = [''itu-to-sip'' \<mapsto> \<lparr> causeCodeMapping = [16 \<mapsto> 200, 17 \<mapsto> 486] \<rparr>]"

definition itu_context :: translation_context where
  "itu_context = \<lparr> ctx_sipCallId = Some ''abc'', ctx_variant = Some ''itu'' \<rparr>"

section \<open>LAPD frame codec (src/protocols/d-channel.ts)\<close>

datatype frame_type = I | S | U

datatype supervisory_type = RR | RNR | REJ | SREJ

datatype unnumbered_type = SABME | DM | UI | DISC | UA | FRMR | XID

text \<open>
  \<^verbatim>\<open>LAPDFrame\<close>. The optional fields of the control field are options, \<open>None\<close> standing
  for \<^verbatim>\<open>undefined\<close>. Numbers are naturals; a number stored into a \<^verbatim>\<open>Buffer\<close> is
  truncated to its low eight bits, which is \<open>of_nat\<close> into \<open>8 word\<close>.
\<close>

record lapd_address =
  sapi :: nat
  cr :: bool
  ea0 :: bool
  tei :: nat
  ea1 :: bool

record lapd_control =
  ctl_type :: frame_type
  ns :: "nat option"
  nr :: "nat option"
  pf :: "bool option"
  supervisory :: "supervisory_type option"
  unnumbered :: "unnumbered_type option"

record lapd_frame =
  address :: lapd_address
  control :: lapd_control
  information :: "byte list option"
  fcs :: nat

subsection \<open>Frame check sequence\<close>

text \<open>
  \<^verbatim>\<open>calculateFCS\<close>: the register is kept within 16 bits by \<^verbatim>\<open>fcs &= 0xFFFF\<close> after every
  shift, so it is a \<open>16 word\<close>.
\<close>

definition fcs_shift :: "16 word \<Rightarrow> 16 word" where
  "fcs_shift w = (if w AND 0x8000 \<noteq> 0 then push_bit 1 w XOR 0x1021 else push_bit 1 w)"

definition fcs_octet :: "16 word \<Rightarrow> byte \<Rightarrow> 16 word" where
  "fcs_octet w b = (fcs_shift ^^ 8) (w XOR push_bit 8 (ucast b))"

definition calculateFCS :: "byte list \<Rightarrow> nat" where
  "calculateFCS data = unat (foldl fcs_octet 0xFFFF data XOR 0xFFFF)"

subsection \<open>Decoding\<close>

definition bit_set :: "byte \<Rightarrow> byte \<Rightarrow> bool" where
  "bit_set b msk = (b AND msk \<noteq> 0)"

definition supervisory_of :: "byte \<Rightarrow> supervisory_type" where
  "supervisory_of sType = [RR, RNR, REJ, SREJ] ! unat sType"

definition unnumberedTypes :: "(byte \<times> unnumbered_type) list" where
  "unnumberedTypes =
     [(0x6F, SABME), (0x0F, DM), (0x03, UI), (0x43, DISC), (0x63, UA), (0x87, FRMR), (0xAF, XID)]"

definition readUInt16LE :: "byte list \<Rightarrow> nat \<Rightarrow> nat" where
  "readUInt16LE data off = unat (data ! off) + 256 * unat (data ! (off + 1))"

definition parse_control :: "byte list \<Rightarrow> lapd_control \<times> nat" where
  "parse_control data =
     (let ctrl = data ! 2
      in if ctrl AND 0x01 = 0 then
           (\<lparr> ctl_type = I, ns = Some (unat (drop_bit 1 ctrl AND 0x7F)),
               nr = Some (unat (drop_bit 1 (data ! 3) AND 0x7F)),
               pf = Some (bit_set (data ! 3) 0x01), supervisory = None, unnumbered = None \<rparr>, 4)
         else if ctrl AND 0x03 = 0x01 then
           (\<lparr> ctl_type = S, ns = None,
               nr = Some (unat (drop_bit 1 (data ! 3) AND 0x7F)),
               pf = Some (bit_set (data ! 3) 0x01),
               supervisory = Some (supervisory_of (drop_bit 2 ctrl AND 0x03)), unnumbered = None \<rparr>, 4)
         else
           (\<lparr> ctl_type = U, ns = None, nr = None, pf = Some (bit_set ctrl 0x10),
               supervisory = None, unnumbered = map_of unnumberedTypes (ctrl AND 0xEF) \<rparr>, 3))"

definition parseLAPDFrame :: "byte list \<Rightarrow> lapd_frame outcome" where
  "parseLAPDFrame data =
     (if length data < 4 then Threw ''LAPD frame too short''
      else
        (let addr1 = data ! 0; addr2 = data ! 1;
             addr = \<lparr> sapi = unat (drop_bit 2 addr1 AND 0x3F), cr = bit_set addr1 0x02,
                      ea0 = bit_set addr1 0x01, tei = unat (drop_bit 1 addr2 AND 0x7F),
                      ea1 = bit_set addr2 0x01 \<rparr>;
             (ctl, offset) = parse_control data;
             info = (if offset < length data - 2
                       then Some (take (length data - 2 - offset) (drop offset data)) else None)
         in Returned \<lparr> address = addr, control = ctl, information = info,
                        fcs = readUInt16LE data (length data - 2) \<rparr>))"

subsection \<open>Encoding\<close>

definition flag_bit :: "bool \<Rightarrow> byte \<Rightarrow> byte" where
  "flag_bit b msk = (if b then msk else 0)"

definition truthy :: "bool option \<Rightarrow> bool" where
  "truthy b = (b = Some True)"

definition num_or_0 :: "nat option \<Rightarrow> nat" where
  "num_or_0 n = (case n of None \<Rightarrow> 0 | Some k \<Rightarrow> k)"

definition sTypes :: "supervisory_type \<Rightarrow> byte" where
  "sTypes s = (case s of RR \<Rightarrow> 0 | RNR \<Rightarrow> 1 | REJ \<Rightarrow> 2 | SREJ \<Rightarrow> 3)"

definition uTypes :: "unnumbered_type \<Rightarrow> byte" where
  "uTypes u = (case u of SABME \<Rightarrow> 0x6F | DM \<Rightarrow> 0x0F | UI \<Rightarrow> 0x03 | DISC \<Rightarrow> 0x43
               | UA \<Rightarrow> 0x63 | FRMR \<Rightarrow> 0x87 | XID \<Rightarrow> 0xAF)"

definition build_control :: "lapd_control \<Rightarrow> byte list" where
  "build_control c =
     (if ctl_type c = I then
        [of_nat (num_or_0 (ns c) * 2),
         of_nat (num_or_0 (nr c) * 2) OR flag_bit (truthy (pf c)) 0x01]
      else if ctl_type c = S then
        [0x01 OR push_bit 2 (case supervisory c of None \<Rightarrow> 0 | Some s \<Rightarrow> sTypes s),
         of_nat (num_or_0 (nr c) * 2) OR flag_bit (truthy (pf c)) 0x01]
      else
        [(case unnumbered c of None \<Rightarrow> 0x03 | Some u \<Rightarrow> uTypes u) OR flag_bit (truthy (pf c)) 0x10])"

text \<open>
  \<^verbatim>\<open>buffer.writeUInt16LE(value, offset)\<close>: Node throws a \<^verbatim>\<open>RangeError\<close> with the code
  \<^verbatim>\<open>ERR_OUT_OF_RANGE\<close> unless both octets lie within the buffer.
\<close>

definition writeUInt16LE :: "byte list \<Rightarrow> nat \<Rightarrow> nat \<Rightarrow> byte list outcome" where
  "writeUInt16LE buffer v offset =
     (if offset + 2 \<le> length buffer
      then Returned (buffer[offset := of_nat (v mod 256), offset + 1 := of_nat (v div 256)])
      else Threw ''ERR_OUT_OF_RANGE'')"

text \<open>
  The length that \<^verbatim>\<open>buildLAPDFrame\<close> allocates: 4 octets, or 5 for an I- or S-frame, plus the
  information field.
\<close>

definition lapd_alloc_length :: "lapd_frame \<Rightarrow> nat" where
  "lapd_alloc_length frame =
     (if ctl_type (control frame) = I \<or> ctl_type (control frame) = S then 5 else 4)
     + (case information frame of None \<Rightarrow> 0 | Some i \<Rightarrow> length i)"

text \<open>
  \<^verbatim>\<open>buildLAPDFrame\<close>: \<open>body\<close> is what has been written when the FCS is computed, \<open>offset\<close>
  its length; the buffer is the body within \<^verbatim>\<open>Buffer.alloc(length)\<close>, zero-filled, a write
  past its end being dropped.
\<close>

definition buildLAPDFrame :: "lapd_frame \<Rightarrow> byte list outcome" where
  "buildLAPDFrame frame =
     (let a = address frame;
          len = lapd_alloc_length frame;
          body = [of_nat (sapi a * 4) OR flag_bit (cr a) 0x02 OR flag_bit (ea0 a) 0x01,
                  of_nat (tei a * 2) OR flag_bit (ea1 a) 0x01]
                 @ build_control (control frame)
                 @ (case information frame of None \<Rightarrow> [] | Some i \<Rightarrow> i);
          offset = length body;
          buffer = take len body @ replicate (len - offset) 0
      in writeUInt16LE buffer (calculateFCS body) offset)"

section \<open>Q.931 message codec (src/protocols/d-channel.ts)\<close>

text \<open>
  The call reference value is built and taken apart with the 32-bit operators \<^verbatim>\<open><<\<close>,
  \<^verbatim>\<open>|\<close> and \<^verbatim>\<open>>>\<close>, so it is a \<open>32 word\<close> (\<^verbatim>\<open>>>\<close> is the signed shift, its count taken
  modulo 32). A message type read past the end of the data is \<^verbatim>\<open>undefined\<close>.
\<close>

record call_reference =
  cr_length :: nat
  cr_flag :: bool
  cr_value :: "32 word"

record q931_ie =
  ie_id :: byte
  ie_data :: "byte list"

record q931_message =
  protocolDiscriminator :: byte
  callReference :: call_reference
  messageType :: "byte option"
  informationElements :: "q931_ie list"

text \<open>\<^verbatim>\<open>data[i] & msk\<close>, which is 0 when \<^verbatim>\<open>data[i]\<close> is undefined.\<close>

definition octet_and :: "byte list \<Rightarrow> nat \<Rightarrow> byte \<Rightarrow> byte" where
  "octet_and data i msk = (if i < length data then data ! i AND msk else 0)"

definition parse_callref_value :: "byte list \<Rightarrow> nat \<Rightarrow> 32 word" where
  "parse_callref_value data len =
     foldl (\<lambda>v i. push_bit 8 v OR ucast (octet_and data (2 + i) (if i = 0 then 0x7F else 0xFF)))
       0 [0 ..< len]"

fun parse_ies :: "byte list \<Rightarrow> q931_ie list" where
  "parse_ies [] = []"
| "parse_ies (ieId # rest) =
     (if ieId AND 0x80 \<noteq> 0 then \<lparr> ie_id = ieId, ie_data = [] \<rparr> # parse_ies rest
      else
        (case rest of
           [] \<Rightarrow> [\<lparr> ie_id = ieId, ie_data = [] \<rparr>]
         | ieLength # rest' \<Rightarrow>
             \<lparr> ie_id = ieId, ie_data = take (unat ieLength) rest' \<rparr>
               # parse_ies (drop (unat ieLength) rest')))"

definition parseQ931Message :: "byte list \<Rightarrow> q931_message outcome" where
  "parseQ931Message data =
     (if length data < 3 then Threw ''Q.931 message too short''
      else
        (let callRefLength = unat (data ! 1 AND 0x0F)
         in Returned
              \<lparr> protocolDiscriminator = data ! 0,
                callReference = \<lparr> cr_length = callRefLength,
                                   cr_flag = bit_set (data ! 2) 0x80,
                                   cr_value = parse_callref_value data callRefLength \<rparr>,
                messageType = (if 2 + callRefLength < length data
                                 then Some (data ! (2 + callRefLength)) else None),
                informationElements = parse_ies (drop (3 + callRefLength) data) \<rparr>))"

definition build_ie :: "q931_ie \<Rightarrow> byte list" where
  "build_ie ie =
     (if ie_id ie AND 0x80 \<noteq> 0 then [ie_id ie]
      else [ie_id ie, of_nat (length (ie_data ie))] @ ie_data ie)"

definition build_callref :: "call_reference \<Rightarrow> byte list" where
  "build_callref c =
     (let crv = (if cr_flag c then cr_value c OR 0x80 else cr_value c)
      in map (\<lambda>i. ucast (signed_drop_bit ((i * 8) mod 32) crv AND 0xFF)) (rev [0 ..< cr_length c]))"

definition buildQ931Message :: "q931_message \<Rightarrow> byte list" where
  "buildQ931Message message =
     [protocolDiscriminator message, of_nat (cr_length (callReference message))]
     @ build_callref (callReference message)
     @ [case messageType message of None \<Rightarrow> 0 | Some t \<Rightarrow> t]
     @ concat (map build_ie (informationElements message))"

text \<open>The codecs composed: decode, then encode again what was decoded.\<close>

definition lapd_reencode :: "byte list \<Rightarrow> byte list outcome" where
  "lapd_reencode data =
     (case parseLAPDFrame data of Threw e \<Rightarrow> Threw e | Returned f \<Rightarrow> buildLAPDFrame f)"

definition q931_reencode :: "byte list \<Rightarrow> byte list outcome" where
  "q931_reencode data =
     (case parseQ931Message data of Threw e \<Rightarrow> Threw e | Returned m \<Rightarrow> Returned (buildQ931Message m))"

text \<open>
  Test data: a SETUP (message type 5) whose two-octet call reference 0x1234 has the flag bit
  set in the high bit of its first octet; a UA response (F = 1) for SAPI 0, TEI 0 followed by
  an all-zero FCS.
\<close>

definition setup_flagged :: "byte list" where
  "setup_flagged = [0x08, 0x02, 0x92, 0x34, 0x05]"

definition ua_zero_fcs :: "byte list" where
  "ua_zero_fcs = [0x02, 0x01, 0x73, 0x00, 0x00]"

section \<open>LAPD engine (DChannelHandler, src/protocols/d-channel.ts)\<close>

datatype dchannel_mode = FAS | NFAS

datatype dchannel_state =
    DOWN
  | ESTABLISHING
  | ESTABLISHED
  | MULTIPLE_FRAME_ESTABLISHED
  | TEI_ASSIGNED
  | AWAITING_ESTABLISHMENT
  | AWAITING_RELEASE

text \<open>
  \<^verbatim>\<open>DChannelConfig\<close> without the timer durations: time is not modelled, a timer is either
  armed or not, and its expiry is an operation of its own.
\<close>

record dchannel_config =
  cfg_mode :: dchannel_mode
  cfg_spanId :: nat
  cfg_channelId :: nat
  cfg_tei :: nat
  cfg_sapi :: nat
  cfg_ces :: nat
  cfg_primaryInterface :: bool
  cfg_backupInterface :: bool
  cfg_interfaceGroup :: "nat option"
  cfg_maxRetransmissions :: nat
  cfg_n200Counter :: nat

datatype dchannel_event =
    EvStarted
  | EvStopped
  | EvEstablished
  | EvDisconnected
  | EvError string
  | EvQ931Message q931_message
  | EvFrameOut "byte list"
  | EvUiFrame "byte list"
  | EvXidFrame "byte list option"

text \<open>
  The handler's fields. \<^verbatim>\<open>emit\<close> appends to \<open>emitted\<close>; an \<^verbatim>\<open>error\<close> listener is assumed
  to be registered, as the NFAS manager does, so that emitting \<^verbatim>\<open>error\<close> does not throw.
\<close>

record dchannel =
  config :: dchannel_config
  state :: dchannel_state
  isRunning :: bool
  vs :: nat
  vr :: nat
  va :: nat
  retransmissionCount :: nat
  ownBusy :: bool
  peerBusy :: bool
  t200_armed :: bool
  t203_armed :: bool
  acknowledgePending :: "lapd_frame list"
  emitted :: "dchannel_event list"

definition new_dchannel :: "dchannel_config \<Rightarrow> dchannel" where
  "new_dchannel c =
     \<lparr> config = c, state = DOWN, isRunning = False, vs = 0, vr = 0, va = 0,
       retransmissionCount = 0, ownBusy = False, peerBusy = False,
       t200_armed = False, t203_armed = False, acknowledgePending = [], emitted = [] \<rparr>"

definition emit :: "dchannel_event \<Rightarrow> dchannel \<Rightarrow> dchannel" where
  "emit ev d = d\<lparr> emitted := emitted d @ [ev] \<rparr>"

definition startT200Timer :: "dchannel \<Rightarrow> dchannel" where
  "startT200Timer d = d\<lparr> t200_armed := True \<rparr>"

definition clearT200Timer :: "dchannel \<Rightarrow> dchannel" where
  "clearT200Timer d = d\<lparr> t200_armed := False \<rparr>"

definition startT203Timer :: "dchannel \<Rightarrow> dchannel" where
  "startT203Timer d = d\<lparr> t203_armed := True \<rparr>"

definition clearAllTimers :: "dchannel \<Rightarrow> dchannel" where
  "clearAllTimers d = d\<lparr> t200_armed := False, t203_armed := False \<rparr>"

subsection \<open>Frame creation and transmission\<close>

definition frame_address :: "dchannel \<Rightarrow> lapd_address" where
  "frame_address d =
     \<lparr> sapi = cfg_sapi (config d), cr = True, ea0 = False, tei = cfg_tei (config d), ea1 = True \<rparr>"

definition createInformationFrame :: "byte list \<Rightarrow> dchannel \<Rightarrow> lapd_frame" where
  "createInformationFrame info d =
     \<lparr> address = frame_address d,
       control = \<lparr> ctl_type = I, ns = Some (vs d), nr = Some (vr d), pf = Some False,
                   supervisory = None, unnumbered = None \<rparr>,
       information = Some info, fcs = 0 \<rparr>"

definition createSupervisoryFrame :: "supervisory_type \<Rightarrow> bool \<Rightarrow> dchannel \<Rightarrow> lapd_frame" where
  "createSupervisoryFrame t p d =
     \<lparr> address = frame_address d,
       control = \<lparr> ctl_type = S, ns = None, nr = Some (vr d), pf = Some p,
                   supervisory = Some t, unnumbered = None \<rparr>,
       information = None, fcs = 0 \<rparr>"

definition createUnnumberedFrame :: "unnumbered_type \<Rightarrow> bool \<Rightarrow> dchannel \<Rightarrow> lapd_frame" where
  "createUnnumberedFrame t p d =
     \<lparr> address = frame_address d,
       control = \<lparr> ctl_type = U, ns = None, nr = None, pf = Some p,
                   supervisory = None, unnumbered = Some t \<rparr>,
       information = None, fcs = 0 \<rparr>"

text \<open>The frames that \<^verbatim>\<open>sendFrame\<close> keeps for retransmission: I-frames and SABME.\<close>

definition kept_for_retransmission :: "lapd_frame \<Rightarrow> bool" where
  "kept_for_retransmission frame =
     (ctl_type (control frame) = I
      \<or> (ctl_type (control frame) = U \<and> unnumbered (control frame) = Some SABME))"

text \<open>
  \<^verbatim>\<open>sendFrame\<close> is \<^verbatim>\<open>async\<close>: when \<^verbatim>\<open>buildLAPDFrame\<close> throws, the promise is rejected and
  nothing of the rest has run. A caller that awaits the promise is rejected in turn; a caller
  that does not (\<open>fst\<close> of the result below) goes on, and the rejection is lost to it: it
  is an unhandled rejection of the process, which no code of the handler observes.
\<close>

definition sendFrame :: "lapd_frame \<Rightarrow> dchannel \<Rightarrow> dchannel \<times> unit outcome" where
  "sendFrame frame d =
     (case buildLAPDFrame frame of
        Threw e \<Rightarrow> (d, Threw e)
      | Returned frameData \<Rightarrow>
          (let d1 = emit (EvFrameOut frameData) d
           in (if kept_for_retransmission frame
               then startT200Timer (d1\<lparr> acknowledgePending := acknowledgePending d1 @ [frame] \<rparr>)
               else d1,
               Returned ())))"

definition sendSupervisoryFrame :: "supervisory_type \<Rightarrow> bool \<Rightarrow> dchannel \<Rightarrow> dchannel" where
  "sendSupervisoryFrame t p d = fst (sendFrame (createSupervisoryFrame t p d) d)"

definition sendRejectFrame :: "dchannel \<Rightarrow> dchannel" where
  "sendRejectFrame d = sendSupervisoryFrame REJ False d"

subsection \<open>Start and stop\<close>

definition establishFAS :: "dchannel \<Rightarrow> dchannel \<times> unit outcome" where
  "establishFAS d =
     (case sendFrame (createUnnumberedFrame SABME True d) d of
        (d1, Threw e) \<Rightarrow> (d1, Threw e)
      | (d1, Returned u) \<Rightarrow> ((startT200Timer d1)\<lparr> state := AWAITING_ESTABLISHMENT \<rparr>, Returned ()))"

definition establishAsPrimary :: "dchannel \<Rightarrow> dchannel \<times> unit outcome" where
  "establishAsPrimary d =
     (case sendFrame (createUnnumberedFrame SABME True d) d of
        (d1, Threw e) \<Rightarrow> (d1, Threw e)
      | (d1, Returned u) \<Rightarrow> ((startT200Timer d1)\<lparr> state := AWAITING_ESTABLISHMENT \<rparr>, Returned ()))"

definition establishNFAS :: "dchannel \<Rightarrow> dchannel \<times> unit outcome" where
  "establishNFAS d =
     (if cfg_primaryInterface (config d) then establishAsPrimary d
      else (startT203Timer (d\<lparr> state := AWAITING_ESTABLISHMENT \<rparr>), Returned ()))"

definition start :: "dchannel \<Rightarrow> dchannel \<times> unit outcome" where
  "start d =
     (if isRunning d then (d, Threw ''D-Channel already running'')
      else
        (let d1 = d\<lparr> isRunning := True, state := ESTABLISHING \<rparr>
         in case (if cfg_mode (config d1) = FAS then establishFAS d1 else establishNFAS d1) of
              (d2, Threw e) \<Rightarrow> (d2, Threw e)
            | (d2, Returned u) \<Rightarrow> (emit EvStarted d2, Returned ())))"

definition stop :: "dchannel \<Rightarrow> dchannel" where
  "stop d =
     (if \<not> isRunning d then d
      else emit EvStopped ((clearAllTimers d)\<lparr> state := DOWN, isRunning := False \<rparr>))"

definition isEstablished :: "dchannel \<Rightarrow> bool" where
  "isEstablished d = (state d = ESTABLISHED \<or> state d = MULTIPLE_FRAME_ESTABLISHED)"

subsection \<open>Acknowledgements and received frames\<close>

text \<open>\<^verbatim>\<open>frame.control.ns! < nr\<close> is false when \<^verbatim>\<open>ns\<close> is undefined.\<close>

definition acknowledged :: "nat \<Rightarrow> lapd_frame \<Rightarrow> bool" where
  "acknowledged n frame =
     (ctl_type (control frame) = I
      \<and> (case ns (control frame) of None \<Rightarrow> False | Some k \<Rightarrow> k < n))"

definition updateAcknowledgmentState :: "nat \<Rightarrow> dchannel \<Rightarrow> dchannel" where
  "updateAcknowledgmentState n d =
     (let d1 = d\<lparr> acknowledgePending := filter (\<lambda>f. \<not> acknowledged n f) (acknowledgePending d),
                  va := n \<rparr>
      in if acknowledgePending d1 = [] then clearT200Timer d1 else d1)"

definition processQ931Message :: "byte list \<Rightarrow> dchannel \<Rightarrow> dchannel" where
  "processQ931Message data d =
     (case parseQ931Message data of
        Threw e \<Rightarrow> d
      | Returned m \<Rightarrow> emit (EvQ931Message m) d)"

definition processInformationFrame :: "lapd_frame \<Rightarrow> dchannel \<Rightarrow> dchannel" where
  "processInformationFrame frame d =
     (if state d \<noteq> ESTABLISHED \<and> state d \<noteq> MULTIPLE_FRAME_ESTABLISHED then d
      else if ns (control frame) \<noteq> Some (vr d) then sendRejectFrame d
      else
        (let d1 = d\<lparr> vr := (vr d + 1) mod 128 \<rparr>;
             d2 = (case information frame of
                     None \<Rightarrow> d1
                   | Some info \<Rightarrow> if info = [] then d1 else processQ931Message info d1);
             d3 = sendSupervisoryFrame RR False d2
         in updateAcknowledgmentState (num_or_0 (nr (control frame))) d3))"

definition processSupervisoryFrame :: "lapd_frame \<Rightarrow> dchannel \<Rightarrow> dchannel" where
  "processSupervisoryFrame frame d =
     (let n = num_or_0 (nr (control frame))
      in case supervisory (control frame) of
           Some RR \<Rightarrow> updateAcknowledgmentState n (d\<lparr> peerBusy := False \<rparr>)
         | Some RNR \<Rightarrow> updateAcknowledgmentState n (d\<lparr> peerBusy := True \<rparr>)
         | Some REJ \<Rightarrow> (updateAcknowledgmentState n (d\<lparr> peerBusy := False \<rparr>))\<lparr> vs := n \<rparr>
         | _ \<Rightarrow> d)"

definition processUnnumberedFrame :: "lapd_frame \<Rightarrow> dchannel \<Rightarrow> dchannel" where
  "processUnnumberedFrame frame d =
     (case unnumbered (control frame) of
        Some SABME \<Rightarrow>
          emit EvEstablished
            ((fst (sendFrame (createUnnumberedFrame UA False (d\<lparr> vs := 0, vr := 0, va := 0 \<rparr>))
                     (d\<lparr> vs := 0, vr := 0, va := 0 \<rparr>)))\<lparr> state := ESTABLISHED \<rparr>)
      | Some UA \<Rightarrow>
          if state d = AWAITING_ESTABLISHMENT
          then emit EvEstablished (startT203Timer ((clearT200Timer d)\<lparr> state := ESTABLISHED \<rparr>))
          else d
      | Some DM \<Rightarrow> emit EvDisconnected (d\<lparr> state := DOWN \<rparr>)
      | Some DISC \<Rightarrow>
          emit EvDisconnected
            ((fst (sendFrame (createUnnumberedFrame UA False d) d))\<lparr> state := DOWN \<rparr>)
      | Some FRMR \<Rightarrow> emit (EvError ''Frame rejected by peer'') (d\<lparr> state := DOWN \<rparr>)
      | Some UI \<Rightarrow> (case information frame of None \<Rightarrow> d | Some info \<Rightarrow> emit (EvUiFrame info) d)
      | Some XID \<Rightarrow> emit (EvXidFrame (information frame)) d
      | None \<Rightarrow> d)"

definition validateFrameAddress :: "lapd_frame \<Rightarrow> dchannel \<Rightarrow> bool" where
  "validateFrameAddress frame d =
     (sapi (address frame) = cfg_sapi (config d) \<and> tei (address frame) = cfg_tei (config d))"

text \<open>
  \<^verbatim>\<open>processReceivedFrame\<close> in two steps: the handling of the frame, which says whether the
  end of the \<^verbatim>\<open>try\<close> block is reached, and the restart of T203 that ends the block.
\<close>

definition dispatchReceivedFrame :: "byte list \<Rightarrow> dchannel \<Rightarrow> dchannel \<times> bool" where
  "dispatchReceivedFrame frameData d =
     (if \<not> isRunning d then (d, False)
      else
        (case parseLAPDFrame frameData of
           Threw e \<Rightarrow> (d, False)
         | Returned frame \<Rightarrow>
             if \<not> validateFrameAddress frame d then (d, False)
             else
               (case ctl_type (control frame) of
                  I \<Rightarrow> (processInformationFrame frame d, True)
                | S \<Rightarrow> (processSupervisoryFrame frame d, True)
                | U \<Rightarrow> (processUnnumberedFrame frame d, True))))"

definition processReceivedFrame :: "byte list \<Rightarrow> dchannel \<Rightarrow> dchannel" where
  "processReceivedFrame frameData d =
     (case dispatchReceivedFrame frameData d of
        (d1, True) \<Rightarrow> startT203Timer d1
      | (d1, False) \<Rightarrow> d1)"

definition sendQ931Message :: "q931_message \<Rightarrow> dchannel \<Rightarrow> dchannel \<times> unit outcome" where
  "sendQ931Message message d =
     (if state d \<noteq> ESTABLISHED \<and> state d \<noteq> MULTIPLE_FRAME_ESTABLISHED
      then (d, Threw ''D-Channel not established'')
      else sendFrame (createInformationFrame (buildQ931Message message) d) d)"

subsection \<open>Timer expiry\<close>

text \<open>
  The loop \<^verbatim>\<open>for (const frame of this.acknowledgePending) this.sendFrame(frame)\<close> of
  \<^verbatim>\<open>handleT200Timeout\<close> reads the array by index while a \<^verbatim>\<open>sendFrame\<close> that gets as far as
  its \<^verbatim>\<open>push\<close> appends to it. It runs on fuel, one unit per iteration; a run that has used
  its fuel up hands back the handler as the iterations so far have left it. The promise of
  each \<^verbatim>\<open>sendFrame\<close> is not awaited.
\<close>

datatype 'a run = Done 'a | OutOfFuel 'a

fun retransmit_loop :: "nat \<Rightarrow> nat \<Rightarrow> dchannel \<Rightarrow> dchannel run" where
  "retransmit_loop 0 i d =
     (if i < length (acknowledgePending d) then OutOfFuel d else Done d)"
| "retransmit_loop (Suc fuel) i d =
     (if i < length (acknowledgePending d)
      then retransmit_loop fuel (Suc i) (fst (sendFrame (acknowledgePending d ! i) d))
      else Done d)"

definition handleT200Timeout :: "nat \<Rightarrow> dchannel \<Rightarrow> dchannel run" where
  "handleT200Timeout fuel d =
     (if cfg_maxRetransmissions (config d) \<le> retransmissionCount d
      then Done (emit (EvError ''Layer 2 establishment failed'') (d\<lparr> state := DOWN \<rparr>))
      else
        (case retransmit_loop fuel 0 d of
           OutOfFuel d1 \<Rightarrow> OutOfFuel d1
         | Done d1 \<Rightarrow> Done (startT200Timer (d1\<lparr> retransmissionCount := retransmissionCount d1 + 1 \<rparr>))))"

definition handleT203Timeout :: "dchannel \<Rightarrow> dchannel" where
  "handleT203Timeout d = startT203Timer (fst (sendFrame (createSupervisoryFrame RR True d) d))"

text \<open>The octet frames a handler has put on the wire, oldest first.\<close>

fun frame_out :: "dchannel_event \<Rightarrow> byte list option" where
  "frame_out (EvFrameOut bytes) = Some bytes"
| "frame_out _ = None"


subsection \<open>Reachable states of a handler\<close>

text \<open>
  The operations on a handler: its public methods, and the expiry of a timer, which happens
  only while the timer is armed and leaves it unarmed.
\<close>

datatype dchannel_op =
    DStart
  | DStop
  | DReceive "byte list"
  | DSendQ931 q931_message
  | DT200Expiry nat
  | DT203Expiry

fun dchannel_step :: "dchannel_op \<Rightarrow> dchannel \<Rightarrow> dchannel run" where
  "dchannel_step DStart d = Done (fst (start d))"
| "dchannel_step DStop d = Done (stop d)"
| "dchannel_step (DReceive frameData) d = Done (processReceivedFrame frameData d)"
| "dchannel_step (DSendQ931 message) d = Done (fst (sendQ931Message message d))"
| "dchannel_step (DT200Expiry fuel) d =
     (if t200_armed d then handleT200Timeout fuel (clearT200Timer d) else Done d)"
| "dchannel_step DT203Expiry d =
     Done (if t203_armed d then handleT203Timeout (d\<lparr> t203_armed := False \<rparr>) else d)"

fun dchannel_run :: "dchannel_op list \<Rightarrow> dchannel \<Rightarrow> dchannel run" where
  "dchannel_run [] d = Done d"
| "dchannel_run (op # ops) d =
     (case dchannel_step op d of OutOfFuel d' \<Rightarrow> OutOfFuel d' | Done d' \<Rightarrow> dchannel_run ops d')"

text \<open>
  What holds of every handler that a run has made of a new one: no frame awaits
  acknowledgement, T200 is not armed, and nothing has been retransmitted.
\<close>

definition engine_idle :: "dchannel \<Rightarrow> bool" where
  "engine_idle d = (acknowledgePending d = [] \<and> \<not> t200_armed d \<and> retransmissionCount d = 0)"

subsection \<open>The links used in the examples\<close>

definition fas_config :: dchannel_config where
  "fas_config =
     \<lparr> cfg_mode = FAS, cfg_spanId = 1, cfg_channelId = 16, cfg_tei = 0, cfg_sapi = 0, cfg_ces = 0,
       cfg_primaryInterface = False, cfg_backupInterface = False, cfg_interfaceGroup = None,
       cfg_maxRetransmissions = 3, cfg_n200Counter = 3 \<rparr>"

text \<open>The configuration that the NFAS manager gives the handler of a backup span.\<close>

definition backup_config :: dchannel_config where
  "backup_config =
     \<lparr> cfg_mode = NFAS, cfg_spanId = 2, cfg_channelId = 16, cfg_tei = 0, cfg_sapi = 0, cfg_ces = 0,
       cfg_primaryInterface = False, cfg_backupInterface = True, cfg_interfaceGroup = Some 1,
       cfg_maxRetransmissions = 3, cfg_n200Counter = 3 \<rparr>"

definition status_enquiry :: q931_message where
  "status_enquiry =
     \<lparr> protocolDiscriminator = 0x08,
       callReference = \<lparr> cr_length = 1, cr_flag = False, cr_value = 0 \<rparr>,
       messageType = Some 0x75, informationElements = [] \<rparr>"

text \<open>
  Frames from the peer for SAPI 0, TEI 0, each followed by two FCS octets (which the decoder
  does not check): SABME with P = 1, DISC with P = 1, and RR with N(R) = 5.
\<close>

definition sabme_in :: "byte list" where
  "sabme_in = [0x00, 0x01, 0x7F, 0x00, 0x00]"

definition disc_in :: "byte list" where
  "disc_in = [0x00, 0x01, 0x53, 0x00, 0x00]"

definition rr5_in :: "byte list" where
  "rr5_in = [0x00, 0x01, 0x01, 0x0A, 0x00, 0x00]"

text \<open>
  A backup handler after \<^verbatim>\<open>start()\<close>, which sends nothing and awaits establishment; then the
  peer's UA received, which establishes the link; then the peer's RR received. None of
  these steps calls \<^verbatim>\<open>sendFrame\<close>.
\<close>

definition link_started :: dchannel where
  "link_started = fst (start (new_dchannel backup_config))"

definition link_up :: dchannel where
  "link_up = processReceivedFrame ua_zero_fcs link_started"

definition link_acked :: dchannel where
  "link_acked = processReceivedFrame rr5_in link_up"




section \<open>NFAS manager (src/protocols/nfas-manager.ts)\<close>

datatype group_state = Inactive | Active | Switching

record nfas_group_config =
  gc_groupId :: nat
  gc_primarySpan :: nat
  gc_backupSpans :: "nat list"
  gc_loadBalancing :: bool
  gc_ces :: nat

record nfas_configuration =
  nc_enabled :: bool
  nc_groups :: "nfas_group_config list"
  nc_heartbeatInterval :: int
  nc_maxSwitchoverAttempts :: nat

text \<open>
  \<^verbatim>\<open>NFASGroup\<close>. \<^verbatim>\<open>spans\<close> maps a span to its handler; the handlers are the objects that
  \<^verbatim>\<open>dChannelHandlers\<close> holds as well, so the model keeps them here only.
\<close>

record nfas_group =
  groupId :: nat
  primarySpan :: nat
  backupSpans :: "nat list"
  activeSpan :: nat
  spans :: "nat \<rightharpoonup> dchannel"
  grp_state :: group_state

record nfas_statistics =
  st_groupId :: nat
  st_activeSpan :: nat
  st_primarySpan :: nat
  st_availableSpans :: "nat list"
  switchoverCount :: nat
  lastSwitchover :: "nat option"
  heartbeatsSent :: nat
  heartbeatsLost :: nat
  callsHandled :: nat

record switchover_info =
  so_groupId :: nat
  so_previousSpan :: nat
  so_newActiveSpan :: nat
  so_reason :: string

datatype nfas_event =
    MgrStarted
  | MgrStopped
  | GroupActivated nat nat
  | GroupInactive nat string
  | SwitchoverCompleted switchover_info
  | MgrFrameOut nat "byte list"
  | MgrQ931Message nat nat q931_message

text \<open>
  \<^verbatim>\<open>groups\<close> is a \<^verbatim>\<open>Map\<close> read in insertion order by \<^verbatim>\<open>processReceivedFrame\<close>: an
  association list in which \<^verbatim>\<open>set\<close> replaces the value of a key in place or appends.
\<close>

record nfas_manager =
  mgr_config :: nfas_configuration
  groups :: "(nat \<times> nfas_group) list"
  mgr_isRunning :: bool
  heartbeat_armed :: bool
  statistics :: "nat \<rightharpoonup> nfas_statistics"
  mgr_emitted :: "nfas_event list"

definition new_nfas_manager :: "nfas_configuration \<Rightarrow> nfas_manager" where
  "new_nfas_manager c =
     \<lparr> mgr_config = c, groups = [], mgr_isRunning = False, heartbeat_armed = False,
       statistics = Map.empty, mgr_emitted = [] \<rparr>"

fun map_set :: "'k \<Rightarrow> 'v \<Rightarrow> ('k \<times> 'v) list \<Rightarrow> ('k \<times> 'v) list" where
  "map_set k v [] = [(k, v)]"
| "map_set k v ((k', v') # kvs) = (if k = k' then (k, v) # kvs else (k', v') # map_set k v kvs)"

definition mgr_emit :: "nfas_event \<Rightarrow> nfas_manager \<Rightarrow> nfas_manager" where
  "mgr_emit ev m = m\<lparr> mgr_emitted := mgr_emitted m @ [ev] \<rparr>"

definition put_group :: "nfas_group \<Rightarrow> nfas_manager \<Rightarrow> nfas_manager" where
  "put_group g m = m\<lparr> groups := map_set (groupId g) g (groups m) \<rparr>"

definition put_handler :: "nat \<Rightarrow> dchannel \<Rightarrow> nfas_group \<Rightarrow> nfas_group" where
  "put_handler spanId d g = g\<lparr> spans := (spans g)(spanId \<mapsto> d) \<rparr>"

text \<open>The events a handler has emitted since it was in the state \<open>d\<close>.\<close>

definition new_events :: "dchannel \<Rightarrow> dchannel \<Rightarrow> dchannel_event list" where
  "new_events d d' = drop (length (emitted d)) (emitted d')"

subsection \<open>Listeners on a handler's events\<close>

text \<open>
  \<^verbatim>\<open>start\<close> and \<^verbatim>\<open>stop\<close> of a handler emit no event other than \<^verbatim>\<open>frameOut\<close>, \<^verbatim>\<open>started\<close>
  and \<^verbatim>\<open>stopped\<close>, and of these only \<^verbatim>\<open>frameOut\<close> has a listener, which passes the frame
  on.
\<close>

definition forward_frames :: "dchannel \<Rightarrow> dchannel_event list \<Rightarrow> nfas_manager \<Rightarrow> nfas_manager" where
  "forward_frames d evs m =
     m\<lparr> mgr_emitted := mgr_emitted m
          @ map (MgrFrameOut (cfg_spanId (config d))) (List.map_filter frame_out evs) \<rparr>"

definition dchannel_config_for :: "nfas_group_config \<Rightarrow> nat \<Rightarrow> dchannel_config" where
  "dchannel_config_for gc spanId =
     \<lparr> cfg_mode = NFAS, cfg_spanId = spanId, cfg_channelId = 16, cfg_tei = 0, cfg_sapi = 0,
       cfg_ces = gc_ces gc, cfg_primaryInterface = (spanId = gc_primarySpan gc),
       cfg_backupInterface = (spanId \<noteq> gc_primarySpan gc),
       cfg_interfaceGroup = Some (gc_groupId gc),
       cfg_maxRetransmissions = 3, cfg_n200Counter = 3 \<rparr>"

subsection \<open>Switchover\<close>

definition is_candidate :: "nfas_group \<Rightarrow> nat \<Rightarrow> bool" where
  "is_candidate g spanId =
     (case spans g spanId of
        None \<Rightarrow> False
      | Some h \<Rightarrow> state h \<noteq> DOWN \<and> spanId \<noteq> activeSpan g)"

definition stop_current :: "nfas_group \<Rightarrow> nfas_group" where
  "stop_current g =
     (case spans g (activeSpan g) of
        None \<Rightarrow> g
      | Some cur \<Rightarrow> put_handler (activeSpan g) (stop cur) g)"

definition record_switchover :: "nat \<Rightarrow> nat \<Rightarrow> nat \<Rightarrow> nfas_manager \<Rightarrow> nfas_manager" where
  "record_switchover now gid spanId m =
     (case statistics m gid of
        None \<Rightarrow> m
      | Some st \<Rightarrow>
          m\<lparr> statistics := (statistics m)(gid \<mapsto>
                st\<lparr> switchoverCount := switchoverCount st + 1,
                    lastSwitchover := Some now, st_activeSpan := spanId \<rparr>) \<rparr>)"

text \<open>\<^verbatim>\<open>if (!handler.isEstablished()) await handler.start()\<close>.\<close>

definition start_if_needed :: "dchannel \<Rightarrow> dchannel \<times> unit outcome" where
  "start_if_needed handler =
     (if isEstablished handler then (handler, Returned ()) else start handler)"

text \<open>
  The loop of \<^verbatim>\<open>performSwitchover\<close> over the candidate spans. The group is passed along
  and written back to the manager at the end of each iteration. The event is built after
  \<^verbatim>\<open>group.activeSpan = spanId\<close>, and reads \<^verbatim>\<open>previousSpan\<close> from \<^verbatim>\<open>group.activeSpan\<close>.
\<close>

fun try_spans :: "nat \<Rightarrow> string \<Rightarrow> nat list \<Rightarrow> nfas_group \<Rightarrow> nfas_manager \<Rightarrow> nfas_manager" where
  "try_spans now reason [] g m =
     mgr_emit (GroupInactive (groupId g) ''switchover_failed'')
       (put_group (g\<lparr> grp_state := Inactive \<rparr>) m)"
| "try_spans now reason (spanId # rest) g m =
     (case spans g spanId of
        None \<Rightarrow> try_spans now reason rest g m
      | Some handler0 \<Rightarrow>
          (let g1 = stop_current g;
               handler = (case spans g1 spanId of None \<Rightarrow> handler0 | Some h \<Rightarrow> h);
               (handler', started) = start_if_needed handler;
               g2 = put_handler spanId handler' g1;
               m2 = forward_frames handler (new_events handler handler') m
           in case started of
                Threw e \<Rightarrow> try_spans now reason rest g2 m2
              | Returned u \<Rightarrow>
                  (let g3 = g2\<lparr> activeSpan := spanId, grp_state := Active \<rparr>
                   in mgr_emit (SwitchoverCompleted
                                  \<lparr> so_groupId = groupId g3, so_previousSpan = activeSpan g3,
                                    so_newActiveSpan = spanId, so_reason = reason \<rparr>)
                        (record_switchover now (groupId g3) spanId (put_group g3 m2)))))"

definition performSwitchover :: "nat \<Rightarrow> nat \<Rightarrow> string \<Rightarrow> nfas_manager \<Rightarrow> nfas_manager" where
  "performSwitchover now gid reason m =
     (case map_of (groups m) gid of
        None \<Rightarrow> m
      | Some g0 \<Rightarrow>
          (let g = g0\<lparr> grp_state := Switching \<rparr>;
               availableSpans = filter (is_candidate g) (primarySpan g # backupSpans g)
           in if availableSpans = []
              then mgr_emit (GroupInactive gid ''no_backup_available'')
                     (put_group (g\<lparr> grp_state := Inactive \<rparr>) m)
              else try_spans now reason availableSpans g m))"

definition forceSwitchover ::
  "nat \<Rightarrow> nat \<Rightarrow> nat option \<Rightarrow> nfas_manager \<Rightarrow> nfas_manager \<times> unit outcome" where
  "forceSwitchover now gid targetSpanId m =
     (case map_of (groups m) gid of
        None \<Rightarrow> (m, Threw (''NFAS group '' @ show_nat gid @ '' not found''))
      | Some g \<Rightarrow>
          (case targetSpanId of
             None \<Rightarrow> (performSwitchover now gid ''manual'' m, Returned ())
           | Some t \<Rightarrow>
               if t = 0 then (performSwitchover now gid ''manual'' m, Returned ())
               else if spans g t = None
               then (m, Threw (''Span '' @ show_nat t @ '' not found in group '' @ show_nat gid))
               else (performSwitchover now gid ''manual'' (put_group (g\<lparr> activeSpan := t \<rparr>) m),
                     Returned ())))"

subsection \<open>Handler events\<close>

definition handleDChannelEstablished :: "dchannel_config \<Rightarrow> nat \<Rightarrow> nfas_manager \<Rightarrow> nfas_manager" where
  "handleDChannelEstablished c gid m =
     (case map_of (groups m) gid of
        None \<Rightarrow> m
      | Some g \<Rightarrow>
          if cfg_primaryInterface c \<and> grp_state g \<noteq> Active
          then mgr_emit (GroupActivated gid (cfg_spanId c))
                 (put_group (g\<lparr> grp_state := Active, activeSpan := cfg_spanId c \<rparr>) m)
          else m)"

definition handleDChannelDown ::
  "nat \<Rightarrow> string \<Rightarrow> dchannel_config \<Rightarrow> nat \<Rightarrow> nfas_manager \<Rightarrow> nfas_manager" where
  "handleDChannelDown now reason c gid m =
     (case map_of (groups m) gid of
        None \<Rightarrow> m
      | Some g \<Rightarrow> if cfg_spanId c = activeSpan g then performSwitchover now gid reason m else m)"

definition handleQ931Message ::
  "dchannel_config \<Rightarrow> nat \<Rightarrow> q931_message \<Rightarrow> nfas_manager \<Rightarrow> nfas_manager" where
  "handleQ931Message c gid message m =
     (case map_of (groups m) gid of
        None \<Rightarrow> m
      | Some g \<Rightarrow>
          if cfg_spanId c \<noteq> activeSpan g then m
          else
            mgr_emit (MgrQ931Message gid (cfg_spanId c) message)
              (case statistics m gid of
                 None \<Rightarrow> m
               | Some st \<Rightarrow>
                   m\<lparr> statistics := (statistics m)(gid \<mapsto> st\<lparr> callsHandled := callsHandled st + 1 \<rparr>) \<rparr>))"

text \<open>
  \<^verbatim>\<open>setupDChannelEventHandlers\<close>: what the manager does on one event of the handler with
  configuration \<open>c\<close> in group \<open>gid\<close>.
\<close>

fun on_event :: "nat \<Rightarrow> dchannel_config \<Rightarrow> nat \<Rightarrow> nfas_manager \<Rightarrow> dchannel_event \<Rightarrow> nfas_manager" where
  "on_event now c gid m EvEstablished = handleDChannelEstablished c gid m"
| "on_event now c gid m EvDisconnected = handleDChannelDown now ''interface_down'' c gid m"
| "on_event now c gid m (EvError e) = handleDChannelDown now ''interface_error'' c gid m"
| "on_event now c gid m (EvQ931Message message) = handleQ931Message c gid message m"
| "on_event now c gid m (EvFrameOut frameData) = mgr_emit (MgrFrameOut (cfg_spanId c) frameData) m"
| "on_event now c gid m _ = m"

definition relay :: "nat \<Rightarrow> dchannel_config \<Rightarrow> nat \<Rightarrow> dchannel_event list \<Rightarrow> nfas_manager \<Rightarrow> nfas_manager" where
  "relay now c gid evs m = foldl (on_event now c gid) m evs"

text \<open>
  Storing the handler \<open>d'\<close> that an operation has made of the handler \<open>d\<close> of span
  \<open>spanId\<close> in group \<open>g\<close>, and running the listeners on the events it has emitted.
\<close>

definition store_and_relay ::
  "nat \<Rightarrow> nfas_group \<Rightarrow> nat \<Rightarrow> dchannel \<Rightarrow> dchannel \<Rightarrow> nfas_manager \<Rightarrow> nfas_manager" where
  "store_and_relay now g spanId d d' m =
     relay now (config d) (groupId g) (new_events d d') (put_group (put_handler spanId d' g) m)"

subsection \<open>Group initialisation, start and stop\<close>

definition initializeGroup :: "nat \<Rightarrow> nfas_group_config \<Rightarrow> nfas_manager \<Rightarrow> nfas_manager" where
  "initializeGroup now gc m =
     (let allSpans = gc_primarySpan gc # gc_backupSpans gc;
          g = \<lparr> groupId = gc_groupId gc, primarySpan = gc_primarySpan gc,
                backupSpans = gc_backupSpans gc, activeSpan = gc_primarySpan gc,
                spans = foldl (\<lambda>sp spanId. sp(spanId \<mapsto> new_dchannel (dchannel_config_for gc spanId)))
                              Map.empty allSpans,
                grp_state = Inactive \<rparr>;
          m1 = put_group g
                 (m\<lparr> statistics := (statistics m)(gc_groupId gc \<mapsto>
                        \<lparr> st_groupId = gc_groupId gc, st_activeSpan = gc_primarySpan gc,
                          st_primarySpan = gc_primarySpan gc, st_availableSpans = allSpans,
                          switchoverCount = 0, lastSwitchover = None, heartbeatsSent = 0,
                          heartbeatsLost = 0, callsHandled = 0 \<rparr>) \<rparr>)
      in case spans g (gc_primarySpan gc) of
           None \<Rightarrow> m1
         | Some primaryHandler \<Rightarrow>
             (case start primaryHandler of
                (d', Returned u) \<Rightarrow>
                  forward_frames primaryHandler (new_events primaryHandler d')
                    (put_group ((put_handler (gc_primarySpan gc) d' g)\<lparr> grp_state := Active \<rparr>) m1)
              | (d', Threw e) \<Rightarrow>
                  performSwitchover now (gc_groupId gc) ''primary_failed''
                    (put_group (put_handler (gc_primarySpan gc) d' g) m1)))"

definition nfas_start :: "nat \<Rightarrow> nfas_manager \<Rightarrow> nfas_manager \<times> unit outcome" where
  "nfas_start now m =
     (if mgr_isRunning m then (m, Threw ''NFAS Manager already running'')
      else
        (let m1 = foldl (\<lambda>acc gc. initializeGroup now gc acc) m (nc_groups (mgr_config m))
         in (mgr_emit MgrStarted
               (m1\<lparr> heartbeat_armed := (0 < nc_heartbeatInterval (mgr_config m1)),
                    mgr_isRunning := True \<rparr>),
             Returned ())))"

definition nfas_stop :: "nfas_manager \<Rightarrow> nfas_manager" where
  "nfas_stop m =
     (if \<not> mgr_isRunning m then m
      else mgr_emit MgrStopped (m\<lparr> heartbeat_armed := False, groups := [], mgr_isRunning := False \<rparr>))"

subsection \<open>Frames, messages and timers\<close>

definition find_span :: "nat \<Rightarrow> (nat \<times> nfas_group) list \<Rightarrow> (nfas_group \<times> dchannel) option" where
  "find_span spanId gs =
     (case filter (\<lambda>(gid, g). spans g spanId \<noteq> None) gs of
        [] \<Rightarrow> None
      | (gid, g) # _ \<Rightarrow> (case spans g spanId of None \<Rightarrow> None | Some d \<Rightarrow> Some (g, d)))"

definition restart_t203 :: "nat \<Rightarrow> nat \<Rightarrow> nfas_manager \<Rightarrow> nfas_manager" where
  "restart_t203 gid spanId m =
     (case map_of (groups m) gid of
        None \<Rightarrow> m
      | Some g \<Rightarrow>
          (case spans g spanId of
             None \<Rightarrow> m
           | Some d \<Rightarrow> put_group (put_handler spanId (startT203Timer d) g) m))"

definition nfas_processReceivedFrame :: "nat \<Rightarrow> nat \<Rightarrow> byte list \<Rightarrow> nfas_manager \<Rightarrow> nfas_manager" where
  "nfas_processReceivedFrame now spanId frameData m =
     (case find_span spanId (groups m) of
        None \<Rightarrow> m
      | Some (g, d) \<Rightarrow>
          (case dispatchReceivedFrame frameData d of
             (d', reached) \<Rightarrow>
               (let m1 = store_and_relay now g spanId d d' m
                in if reached then restart_t203 (groupId g) spanId m1 else m1)))"






text \<open>
  A caller that obtains the handler of a span with \<^verbatim>\<open>getDChannelHandler\<close> and starts it;
  the manager's listeners run on what the handler emits. The manager itself starts no
  handler but the primary one, so a backup handler runs only when it is started this way.
\<close>

definition start_handler :: "nat \<Rightarrow> nat \<Rightarrow> nat \<Rightarrow> nfas_manager \<Rightarrow> nfas_manager" where
  "start_handler now gid spanId m =
     (case map_of (groups m) gid of
        None \<Rightarrow> m
      | Some g \<Rightarrow>
          (case spans g spanId of
             None \<Rightarrow> m
           | Some d \<Rightarrow> store_and_relay now g spanId d (fst (start d)) m))"

subsection \<open>Reachable states\<close>




text \<open>
  The invariant that the code keeps. A handler stored under a span is configured for that
  span, is down, establishing, awaiting establishment or established, and is running unless
  it is down; the active span of an active group names one of the group's handlers, and that
  handler is established.
\<close>

definition state_ok :: "dchannel \<Rightarrow> bool" where
  "state_ok d =
     ((state d = DOWN \<or> state d = ESTABLISHING \<or> state d = AWAITING_ESTABLISHMENT
       \<or> state d = ESTABLISHED)
      \<and> (state d \<noteq> DOWN \<longrightarrow> isRunning d))"

definition handler_ok :: "nat \<Rightarrow> dchannel \<Rightarrow> bool" where
  "handler_ok spanId d = (cfg_spanId (config d) = spanId \<and> state_ok d)"

definition handlers_ok :: "nfas_group \<Rightarrow> bool" where
  "handlers_ok g = (\<forall>spanId d. spans g spanId = Some d \<longrightarrow> handler_ok spanId d)"






text \<open>
  The spans that \<^verbatim>\<open>performSwitchover\<close> tries: none is the active span, and the handler of
  none is down.
\<close>

definition candidates_ok :: "nat list \<Rightarrow> nfas_group \<Rightarrow> bool" where
  "candidates_ok cs g =
     (\<forall>s \<in> set cs. s \<noteq> activeSpan g \<and> (\<forall>h. spans g s = Some h \<longrightarrow> state h \<noteq> DOWN))"





subsection \<open>A group of two spans\<close>

definition two_span_config :: nfas_configuration where
  "two_span_config =
     \<lparr> nc_enabled = True,
       nc_groups = [\<lparr> gc_groupId = 1, gc_primarySpan = 1, gc_backupSpans = [2],
                      gc_loadBalancing = False, gc_ces = 0 \<rparr>],
       nc_heartbeatInterval = 1000, nc_maxSwitchoverAttempts = 3 \<rparr>"

text \<open>
  The manager started: the start of the primary handler of span 1 is rejected, and the group
  is inactive. Then a manual switchover: the backup handler of span 2 is started and
  established by the peer's UA, and \<^verbatim>\<open>forceSwitchover(1)\<close> is called. None of these steps
  calls \<^verbatim>\<open>sendFrame\<close> without awaiting it.
\<close>

definition nfas_started :: nfas_manager where
  "nfas_started = fst (nfas_start 0 (new_nfas_manager two_span_config))"

definition nfas_backup_ready :: nfas_manager where
  "nfas_backup_ready = nfas_processReceivedFrame 2 2 ua_zero_fcs (start_handler 1 1 2 nfas_started)"

definition nfas_switched :: nfas_manager where
  "nfas_switched = fst (forceSwitchover 3 1 None nfas_backup_ready)"

text \<open>
  A failover: the peer's SABME on span 1 establishes the primary handler, and the group
  becomes active on span 1; the backup handler of span 2 is started and established by the
  peer's UA; then the peer disconnects the active span 1 with a DISC.
\<close>

definition nfas_primary_up :: nfas_manager where
  "nfas_primary_up = nfas_processReceivedFrame 1 1 sabme_in nfas_started"

definition nfas_backup_up :: nfas_manager where
  "nfas_backup_up = nfas_processReceivedFrame 3 2 ua_zero_fcs (start_handler 2 1 2 nfas_primary_up)"

definition nfas_failed_over :: nfas_manager where
  "nfas_failed_over = nfas_processReceivedFrame 4 1 disc_in nfas_backup_up"

text \<open>State and active span of a group, the state of a handler, and the switchover count.\<close>

definition group_status :: "nat \<Rightarrow> nfas_manager \<Rightarrow> (group_state \<times> nat) option" where
  "group_status gid m = map_option (\<lambda>g. (grp_state g, activeSpan g)) (map_of (groups m) gid)"

definition handler_state :: "nat \<Rightarrow> nat \<Rightarrow> nfas_manager \<Rightarrow> dchannel_state option" where
  "handler_state gid spanId m =
     (case map_of (groups m) gid of
        None \<Rightarrow> None
      | Some g \<Rightarrow> map_option state (spans g spanId))"

definition switchovers :: "nat \<Rightarrow> nfas_manager \<Rightarrow> nat option" where
  "switchovers gid m = map_option switchoverCount (statistics m gid)"



section \<open>Properties of the SIP handler\<close>

lemma terminateSession_removes: "sessions (terminateSession callId h) callId = None"
  by (simp add: terminateSession_def split: option.splits)

lemma terminateSession_messages_out:
  "filter is_message_out (sip_emitted (terminateSession callId h)) =
     filter is_message_out (sip_emitted h)"
  by (simp add: terminateSession_def split: option.splits)

text \<open>
  C9. A BYE delivered to \<^verbatim>\<open>handleIncomingMessage\<close> always throws "Session not found",
  whether or not a session with that Call-ID exists: \<^verbatim>\<open>terminateSession\<close> has removed the
  session before \<^verbatim>\<open>sendResponse\<close> looks it up. The handler is left as
  \<^verbatim>\<open>terminateSession\<close> left it, and no message (so no 200 OK) has been emitted.
\<close>

theorem bye_always_throws:
  "sm_method message = ''BYE'' \<Longrightarrow>
     snd (sip_handleIncomingMessage parseSDP now message h) =
       Threw (''Session not found: '' @ show_callId (sm_headers message ''Call-ID''))
     \<and> fst (sip_handleIncomingMessage parseSDP now message h) =
         terminateSession (sm_headers message ''Call-ID'') h
     \<and> filter is_message_out (sip_emitted (fst (sip_handleIncomingMessage parseSDP now message h))) =
         filter is_message_out (sip_emitted h)"
  by (simp add: sip_handleIncomingMessage_def handleBye_def sendResponse_def Let_def
      terminateSession_removes terminateSession_messages_out)

theorem bye_always_throws_witness:
  "sm_method bye_msg = ''BYE''
   \<and> sessions sip_one_session (Some ''abc'') \<noteq> None
   \<and> snd (sip_handleIncomingMessage (\<lambda>b r. r) 0 bye_msg sip_one_session) =
       Threw ''Session not found: abc''"
proof -
  have m: "sm_method bye_msg = ''BYE''"
    by (simp add: bye_msg_def)
  have c: "sm_headers bye_msg ''Call-ID'' = Some ''abc''"
    by (simp add: bye_msg_def)
  have s: "sessions sip_one_session (Some ''abc'') \<noteq> None"
    by (simp add: sip_one_session_def createSession_def Let_def)
  have "snd (sip_handleIncomingMessage (\<lambda>b r. r) 0 bye_msg sip_one_session) =
          Threw (''Session not found: '' @ show_callId (sm_headers bye_msg ''Call-ID''))"
    using bye_always_throws [OF m, of "\<lambda>b r. r" 0 sip_one_session] by blast
  then show ?thesis
    using m s by (simp add: c show_callId_def)
qed

section \<open>Properties of the ISUP handler\<close>

lemma set_set_add: "set (set_add x xs) = insert x (set xs)"
  by (auto simp: set_add_def)

lemma set_set_delete: "set (set_delete x xs) = set xs - {x}"
  by (auto simp: set_delete_def)

lemma hd_set_add: "hd (set_add x xs) = (case xs of [] \<Rightarrow> x | y # _ \<Rightarrow> y)"
  by (cases xs) (auto simp: set_add_def)

lemma cic_disjoint_emit [simp]: "cic_disjoint (isup_emit e h) = cic_disjoint h"
  by (simp add: cic_disjoint_def isup_emit_def)

lemma cic_disjoint_new: "cic_disjoint new_isup_handler"
  by (simp add: cic_disjoint_def new_isup_handler_def)

lemma cic_disjoint_start: "cic_disjoint h \<Longrightarrow> cic_disjoint (fst (isup_start h))"
  by (simp add: isup_start_def cic_disjoint_def isup_emit_def)

lemma cic_disjoint_stop: "cic_disjoint h \<Longrightarrow> cic_disjoint (fst (isup_stop h))"
  by (simp add: isup_stop_def cic_disjoint_def isup_emit_def)

lemma cic_disjoint_sendIAM: "cic_disjoint h \<Longrightarrow> cic_disjoint (fst (sendIAM now a b h))"
  by (auto simp: sendIAM_def allocateCIC_def cic_disjoint_def isup_emit_def set_set_delete Let_def
      split: list.splits option.splits)

lemma cic_disjoint_sendACM: "cic_disjoint h \<Longrightarrow> cic_disjoint (fst (sendACM cic h))"
  by (auto simp: sendACM_def split: option.splits)

lemma cic_disjoint_sendANM: "cic_disjoint h \<Longrightarrow> cic_disjoint (fst (sendANM cic h))"
  by (auto simp: sendANM_def cic_disjoint_def isup_emit_def split: option.splits)

lemma cic_disjoint_sendREL: "cic_disjoint h \<Longrightarrow> cic_disjoint (fst (sendREL cic cause h))"
  by (auto simp: sendREL_def cic_disjoint_def isup_emit_def Let_def split: option.splits)

lemma cic_disjoint_sendRLC: "cic_disjoint h \<Longrightarrow> cic_disjoint (sendRLC cic h)"
  by (auto simp: sendRLC_def cic_disjoint_def isup_emit_def set_set_add Let_def split: option.splits)

lemma cic_disjoint_handleIAM: "cic_disjoint h \<Longrightarrow> cic_disjoint (fst (handleIAM now m h))"
  by (auto simp: handleIAM_def cic_disjoint_def isup_emit_def set_set_delete Let_def
      split: option.splits)

lemma cic_disjoint_handleACM: "cic_disjoint h \<Longrightarrow> cic_disjoint (handleACM m h)"
  by (auto simp: handleACM_def split: option.splits)

lemma cic_disjoint_handleANM: "cic_disjoint h \<Longrightarrow> cic_disjoint (handleANM m h)"
  by (auto simp: handleANM_def cic_disjoint_def isup_emit_def Let_def split: option.splits)

lemma cic_disjoint_releasing:
  "cic_disjoint h \<Longrightarrow> calls h c = Some call \<Longrightarrow> cic_disjoint (h\<lparr> calls := (calls h)(c \<mapsto> call') \<rparr>)"
  by (auto simp: cic_disjoint_def)

lemma cic_disjoint_handleREL: "cic_disjoint h \<Longrightarrow> cic_disjoint (fst (handleREL m h))"
  by (auto simp: handleREL_def Let_def cic_disjoint_releasing cic_disjoint_sendRLC
      split: option.splits)

lemma cic_disjoint_handleRLC: "cic_disjoint h \<Longrightarrow> cic_disjoint (handleRLC m h)"
  by (auto simp: handleRLC_def cic_disjoint_def isup_emit_def set_set_add split: option.splits)

lemma cic_disjoint_handleIncomingMessage:
  "cic_disjoint h \<Longrightarrow> cic_disjoint (fst (isup_handleIncomingMessage now m h))"
  by (simp add: isup_handleIncomingMessage_def cic_disjoint_handleIAM cic_disjoint_handleACM
      cic_disjoint_handleANM cic_disjoint_handleREL cic_disjoint_handleRLC)

text \<open>
  C10. Every public operation of the ISUP handler (\<^verbatim>\<open>start\<close>, \<^verbatim>\<open>stop\<close>, \<^verbatim>\<open>sendIAM\<close>,
  \<^verbatim>\<open>sendACM\<close>, \<^verbatim>\<open>sendANM\<close>, \<^verbatim>\<open>sendREL\<close>, \<^verbatim>\<open>sendRLC\<close>, \<^verbatim>\<open>handleIncomingMessage\<close>)
  preserves the invariant that no CIC is both in the available pool and a key of the
  active-calls map, also when the operation throws.
\<close>

theorem isup_ops_preserve_disjoint:
  "cic_disjoint h \<Longrightarrow> cic_disjoint (isup_apply op h)"
  by (cases op)
    (simp_all add: cic_disjoint_start cic_disjoint_stop cic_disjoint_sendIAM cic_disjoint_sendACM
      cic_disjoint_sendANM cic_disjoint_sendREL cic_disjoint_sendRLC
      cic_disjoint_handleIncomingMessage)

theorem isup_ops_preserve_disjoint_witness:
  "cic_disjoint small_pool \<and> cic_disjoint (isup_apply (OpSendRLC 3) small_pool)
   \<and> availableCICs (isup_apply (OpSendRLC 3) small_pool) = [5, 9, 3]"
proof -
  have d: "cic_disjoint small_pool"
    by (simp add: cic_disjoint_def small_pool_def)
  have "availableCICs (isup_apply (OpSendRLC 3) small_pool) = [5, 9, 3]"
    by (simp add: small_pool_def sendRLC_def isup_emit_def set_add_def)
  with d isup_ops_preserve_disjoint [OF d, of "OpSendRLC 3"] show ?thesis
    by simp
qed

lemma set_add_nonempty: "set_add x xs \<noteq> []"
  by (auto simp: set_add_def)

lemma allocateCIC_hd:
  "availableCICs h \<noteq> [] \<Longrightarrow> snd (allocateCIC h) = Some (hd (availableCICs h))"
  by (cases "availableCICs h") (simp_all add: allocateCIC_def)

lemma availableCICs_sendRLC:
  "calls h c = Some call \<Longrightarrow> availableCICs (sendRLC c h) = set_add c (availableCICs h)"
  by (simp add: sendRLC_def isup_emit_def)

lemma sendIAM_first:
  "availableCICs h = c # rest \<Longrightarrow> c \<noteq> 0 \<Longrightarrow> c \<notin> set rest \<Longrightarrow>
     availableCICs (fst (sendIAM now a b h)) = rest \<and> calls (fst (sendIAM now a b h)) c \<noteq> None"
  by (auto simp: sendIAM_def allocateCIC_def set_delete_def isup_emit_def Let_def
      split: option.splits intro: filter_True)

lemma pool_split: "[1 ..< 1001] = 1 # [Suc 1 ..< 1001]"
  by (rule upt_conv_Cons) simp

lemma pool_tail_split: "[Suc 1 ..< 1001] = Suc 1 # [Suc (Suc 1) ..< 1001]"
  by (rule upt_conv_Cons) simp

lemma after_first_iam_facts:
  "availableCICs after_first_iam = [Suc 1 ..< 1001] \<and> calls after_first_iam 1 \<noteq> None"
  unfolding after_first_iam_def
proof (rule sendIAM_first)
  show "availableCICs new_isup_handler = 1 # [Suc 1 ..< 1001]"
    unfolding new_isup_handler_def using pool_split by (simp del: upt_rec_numeral)
qed simp_all

text \<open>
  C7, as stated, fails. After the first \<^verbatim>\<open>sendIAM\<close> has taken CIC 1, releasing CIC 1 with
  \<^verbatim>\<open>sendRLC\<close> puts it back in the pool, no free CIC is smaller than 1, and yet the next
  allocation returns CIC 2: the pool is read in insertion order, and the released CIC is
  appended at its end.
\<close>

theorem cic_first_fit_counterexample:
  "calls after_first_iam 1 \<noteq> None
   \<and> 1 \<in> set (availableCICs (sendRLC 1 after_first_iam))
   \<and> list_all ((\<le>) 1) (availableCICs (sendRLC 1 after_first_iam))
   \<and> snd (allocateCIC (sendRLC 1 after_first_iam)) = Some 2"
proof -
  obtain call where c: "calls after_first_iam 1 = Some call"
    using after_first_iam_facts by blast
  have p: "availableCICs (sendRLC 1 after_first_iam) = set_add 1 [Suc 1 ..< 1001]"
    using availableCICs_sendRLC [OF c] after_first_iam_facts by (simp del: upt_rec_numeral)
  have h: "hd (set_add 1 [Suc 1 ..< 1001]) = (2::nat)"
    unfolding hd_set_add by (subst pool_tail_split) simp
  have a: "snd (allocateCIC (sendRLC 1 after_first_iam)) = Some 2"
    using allocateCIC_hd [of "sendRLC 1 after_first_iam"] set_add_nonempty [of 1 "[Suc 1 ..< 1001]"]
    unfolding p h by blast
  have m: "1 \<in> set (set_add 1 [Suc 1 ..< 1001])"
    unfolding set_set_add by blast
  have "\<forall>x \<in> set (set_add 1 [Suc 1 ..< 1001]). 1 \<le> x"
    unfolding set_set_add by (auto simp del: upt_rec_numeral)
  then have l: "list_all ((\<le>) 1) (set_add 1 [Suc 1 ..< 1001])"
    unfolding list_all_iff .
  show ?thesis
    using c a m l unfolding p by blast
qed

text \<open>
  C7, amended. The pool is first-in-first-out over its insertion order: after
  \<^verbatim>\<open>sendRLC(c)\<close> has released the CIC of an active call, the next allocation returns the
  CIC that was at the front of the pool before the release, and returns \<open>c\<close> itself when
  the pool was empty before the release.
\<close>

theorem release_then_allocate_fifo:
  "calls h c \<noteq> None \<Longrightarrow>
     snd (allocateCIC (sendRLC c h)) = Some (case availableCICs h of [] \<Rightarrow> c | x # _ \<Rightarrow> x)"
  by (auto simp: allocateCIC_hd availableCICs_sendRLC set_add_nonempty hd_set_add)

theorem release_then_allocate_fifo_witness:
  "calls small_pool 3 \<noteq> None \<and> snd (allocateCIC (sendRLC 3 small_pool)) = Some 5"
proof -
  have c: "calls small_pool 3 \<noteq> None"
    by (simp add: small_pool_def)
  have "availableCICs small_pool = [5, 9]"
    by (simp add: small_pool_def)
  with c release_then_allocate_fifo [OF c] show ?thesis
    by simp
qed

section \<open>Properties of the ISUP to SIP translation\<close>


lemma show_nat_16: "show_nat 16 = ''16''"
  by code_simp

lemma reason_16: "reason_header 16 = ''Q.850;cause=16;text='' @ [CHR 0x22] @ ''Normal call clearing'' @ [CHR 0x22]"
  by (simp add: reason_header_def getQ850ReasonText_def reasonTexts_def show_nat_16)

lemma reason_ignores_parameters:
  "sm_headers (translateRELToBye m rules context) ''Reason'' = Some (reason_header 16)"
  by (simp add: translateRELToBye_def Let_def parseISUPCause_def)

text \<open>
  C8 does not hold of the code: \<^verbatim>\<open>parseISUPCause\<close> returns 16 whatever the REL carries.
  The REL of the ITU scenario, whose cause parameter holds 17 (user busy) as the ISUP
  handler's own \<^verbatim>\<open>parseCauseParameter\<close> reads it, is translated into a BYE whose Reason
  header announces cause 16, normal call clearing.
\<close>

theorem rel_cause_17_gives_reason_16:
  "translateISUPToSIPT itu_rules tIAM tACM tANM rel_cause_17 itu_context =
     Returned (translateRELToBye rel_cause_17 \<lparr> causeCodeMapping = [16 \<mapsto> 200, 17 \<mapsto> 486] \<rparr> itu_context)
   \<and> sm_method (translateRELToBye rel_cause_17 rules itu_context) = ''BYE''
   \<and> sm_headers (translateRELToBye rel_cause_17 rules itu_context) ''Reason'' =
       Some (''Q.850;cause=16;text='' @ [CHR 0x22] @ ''Normal call clearing'' @ [CHR 0x22])
   \<and> parseCauseParameter (im_parameters rel_cause_17) = Some 17"
proof -
  have 1: "translateISUPToSIPT itu_rules tIAM tACM tANM rel_cause_17 itu_context =
     Returned (translateRELToBye rel_cause_17 \<lparr> causeCodeMapping = [16 \<mapsto> 200, 17 \<mapsto> 486] \<rparr> itu_context)"
    by (simp add: translateISUPToSIPT_def itu_rules_def itu_context_def rel_cause_17_def)
  have 2: "sm_method (translateRELToBye rel_cause_17 rules itu_context) = ''BYE''"
    by (simp add: translateRELToBye_def Let_def)
  have 3: "sm_headers (translateRELToBye rel_cause_17 rules itu_context) ''Reason'' =
       Some (''Q.850;cause=16;text='' @ [CHR 0x22] @ ''Normal call clearing'' @ [CHR 0x22])"
    by (simp add: translateRELToBye_def Let_def parseISUPCause_def reason_16)
  have 4: "parseCauseParameter (im_parameters rel_cause_17) = Some 17"
    by (simp add: rel_cause_17_def)
  from 1 2 3 4 show ?thesis by blast
qed


section \<open>Properties of the codecs\<close>

text \<open>
  C1 does not hold of the code. \<^verbatim>\<open>parseQ931Message\<close> reads the flag from the high bit of
  the first call-reference octet, but \<^verbatim>\<open>buildQ931Message\<close> sets bit 0x80 of the value,
  which is the high bit of the last octet. The SETUP with the two-octet call reference
  0x92 0x34 (flag set, value 0x1234) is decoded and re-encoded with the call reference
  0x12 0xB4.
\<close>

theorem q931_flagged_call_reference_not_preserved:
  "q931_reencode setup_flagged = Returned [0x08, 0x02, 0x12, 0xB4, 0x05]
   \<and> q931_reencode setup_flagged \<noteq> Returned setup_flagged"
  by code_simp

lemma parse_ua_zero_fcs:
  "parseLAPDFrame ua_zero_fcs =
       Returned \<lparr> address = \<lparr> sapi = 0, cr = True, ea0 = False, tei = 0, ea1 = True \<rparr>,
                  control = \<lparr> ctl_type = U, ns = None, nr = None, pf = Some True,
                              supervisory = None, unnumbered = Some UA \<rparr>,
                  information = None, fcs = 0 \<rparr>"
  by (simp add: parseLAPDFrame_def parse_control_def ua_zero_fcs_def bit_set_def
      unnumberedTypes_def readUInt16LE_def Let_def)

lemma fcs_shift8:
  "(fcs_shift ^^ 8) w =
     fcs_shift (fcs_shift (fcs_shift (fcs_shift (fcs_shift (fcs_shift (fcs_shift (fcs_shift w)))))))"
  by (simp add: eval_nat_numeral)

text \<open>
  C2, as stated, fails. The UA frame 02 01 73 followed by the FCS octets 00 00 is decoded
  into a frame, although the CRC-16 of its first three octets is 0x20C6 and the FCS field
  reads 0.
\<close>

theorem fcs_mismatch_accepted:
  "calculateFCS (take 3 ua_zero_fcs) = 0x20C6
   \<and> readUInt16LE ua_zero_fcs 3 = 0
   \<and> parseLAPDFrame ua_zero_fcs =
       Returned \<lparr> address = \<lparr> sapi = 0, cr = True, ea0 = False, tei = 0, ea1 = True \<rparr>,
                  control = \<lparr> ctl_type = U, ns = None, nr = None, pf = Some True,
                              supervisory = None, unnumbered = Some UA \<rparr>,
                  information = None, fcs = 0 \<rparr>"
proof -
  have "calculateFCS (take 3 ua_zero_fcs) = 0x20C6"
    by (simp add: ua_zero_fcs_def calculateFCS_def fcs_octet_def fcs_shift8 fcs_shift_def)
  moreover have "readUInt16LE ua_zero_fcs 3 = 0"
    by (simp add: ua_zero_fcs_def readUInt16LE_def)
  ultimately show ?thesis
    using parse_ua_zero_fcs by simp
qed

text \<open>
  C2, amended. Decoding never verifies the FCS: an input shorter than four octets is
  rejected as too short, and every other input is decoded into a frame whose \<^verbatim>\<open>fcs\<close> field
  is the last two octets read little-endian, whatever the CRC-16 of the octets before them.
\<close>

theorem parse_does_not_check_fcs:
  "(length data < 4 \<longrightarrow> parseLAPDFrame data = Threw ''LAPD frame too short'')
   \<and> (4 \<le> length data \<longrightarrow>
        (\<exists>f. parseLAPDFrame data = Returned f \<and> fcs f = readUInt16LE data (length data - 2)))"
  by (auto simp: parseLAPDFrame_def Let_def split: prod.splits)

theorem parse_does_not_check_fcs_witness:
  "4 \<le> length ua_zero_fcs
   \<and> (\<exists>f. parseLAPDFrame ua_zero_fcs = Returned f \<and> fcs f = 0)
   \<and> length [0x02, 0x01, 0x73 :: byte] < 4
   \<and> parseLAPDFrame [0x02, 0x01, 0x73] = Threw ''LAPD frame too short''"
proof -
  have l: "4 \<le> length ua_zero_fcs"
    by (simp add: ua_zero_fcs_def)
  have r: "readUInt16LE ua_zero_fcs (length ua_zero_fcs - 2) = 0"
    by (simp add: ua_zero_fcs_def readUInt16LE_def)
  have s: "length [0x02, 0x01, 0x73 :: byte] < 4"
    by simp
  from parse_does_not_check_fcs [of ua_zero_fcs] l r
  have "\<exists>f. parseLAPDFrame ua_zero_fcs = Returned f \<and> fcs f = 0"
    by simp
  moreover from parse_does_not_check_fcs [of "[0x02, 0x01, 0x73]"] s
  have "parseLAPDFrame [0x02, 0x01, 0x73] = Threw ''LAPD frame too short''"
    by blast
  ultimately show ?thesis
    using l s by blast
qed

subsection \<open>The LAPD encoder\<close>

lemma length_build_control:
  "length (build_control c) = (if ctl_type c = I \<or> ctl_type c = S then 2 else 1)"
  by (simp add: build_control_def)

text \<open>
  \<^verbatim>\<open>buildLAPDFrame\<close> allocates one octet less than it writes: the two FCS octets start at
  the last octet of the buffer, and \<^verbatim>\<open>writeUInt16LE\<close> throws, whatever the frame.
\<close>

lemma buildLAPDFrame_throws: "buildLAPDFrame frame = Threw ''ERR_OUT_OF_RANGE''"
  by (simp add: buildLAPDFrame_def writeUInt16LE_def lapd_alloc_length_def
      length_build_control Let_def split: option.splits)

lemma lapd_reencode_never_returns: "lapd_reencode data \<noteq> Returned octets"
  by (simp add: lapd_reencode_def buildLAPDFrame_throws split: outcome.splits)
section \<open>Properties of the LAPD engine\<close>

lemmas engine_defs =
  new_dchannel_def emit_def startT200Timer_def clearT200Timer_def startT203Timer_def
  clearAllTimers_def frame_address_def createInformationFrame_def createSupervisoryFrame_def
  createUnnumberedFrame_def kept_for_retransmission_def sendSupervisoryFrame_def
  sendRejectFrame_def establishFAS_def establishAsPrimary_def establishNFAS_def start_def
  stop_def isEstablished_def acknowledged_def updateAcknowledgmentState_def
  processQ931Message_def processInformationFrame_def processSupervisoryFrame_def
  processUnnumberedFrame_def validateFrameAddress_def dispatchReceivedFrame_def
  processReceivedFrame_def sendQ931Message_def Let_def

text \<open>No frame is ever sent: \<^verbatim>\<open>sendFrame\<close> is rejected before it has done anything.\<close>

lemma sendFrame_throws: "sendFrame frame d = (d, Threw ''ERR_OUT_OF_RANGE'')"
  by (simp add: sendFrame_def buildLAPDFrame_throws)

lemma start_eq:
  "start d =
     (if isRunning d then (d, Threw ''D-Channel already running'')
      else if cfg_mode (config d) = FAS \<or> cfg_primaryInterface (config d)
      then (d\<lparr> isRunning := True, state := ESTABLISHING \<rparr>, Threw ''ERR_OUT_OF_RANGE'')
      else (d\<lparr> isRunning := True, state := AWAITING_ESTABLISHMENT, t203_armed := True,
               emitted := emitted d @ [EvStarted] \<rparr>, Returned ()))"
  by (simp add: engine_defs sendFrame_throws)

lemma sendQ931Message_eq:
  "sendQ931Message message d =
     (if isEstablished d then (d, Threw ''ERR_OUT_OF_RANGE'')
      else (d, Threw ''D-Channel not established''))"
  by (simp add: sendQ931Message_def isEstablished_def sendFrame_throws)

lemma parse_sabme_in:
  "parseLAPDFrame sabme_in =
       Returned \<lparr> address = \<lparr> sapi = 0, cr = False, ea0 = False, tei = 0, ea1 = True \<rparr>,
                  control = \<lparr> ctl_type = U, ns = None, nr = None, pf = Some True,
                              supervisory = None, unnumbered = Some SABME \<rparr>,
                  information = None, fcs = 0 \<rparr>"
  by (simp add: parseLAPDFrame_def parse_control_def sabme_in_def bit_set_def
      unnumberedTypes_def readUInt16LE_def Let_def)

lemma parse_disc_in:
  "parseLAPDFrame disc_in =
       Returned \<lparr> address = \<lparr> sapi = 0, cr = False, ea0 = False, tei = 0, ea1 = True \<rparr>,
                  control = \<lparr> ctl_type = U, ns = None, nr = None, pf = Some True,
                              supervisory = None, unnumbered = Some DISC \<rparr>,
                  information = None, fcs = 0 \<rparr>"
  by (simp add: parseLAPDFrame_def parse_control_def disc_in_def bit_set_def
      unnumberedTypes_def readUInt16LE_def Let_def)

lemma parse_rr5_in:
  "parseLAPDFrame rr5_in =
       Returned \<lparr> address = \<lparr> sapi = 0, cr = False, ea0 = False, tei = 0, ea1 = True \<rparr>,
                  control = \<lparr> ctl_type = S, ns = None, nr = Some 5, pf = Some False,
                              supervisory = Some RR, unnumbered = None \<rparr>,
                  information = None, fcs = 0 \<rparr>"
  by (simp add: parseLAPDFrame_def parse_control_def rr5_in_def bit_set_def
      supervisory_of_def readUInt16LE_def Let_def)

text \<open>The start of a FAS handler is rejected, and leaves the handler establishing.\<close>

lemma fas_start_rejected:
  "start (new_dchannel fas_config) =
     ((new_dchannel fas_config)\<lparr> isRunning := True, state := ESTABLISHING \<rparr>,
      Threw ''ERR_OUT_OF_RANGE'')"
  by (simp add: start_eq new_dchannel_def fas_config_def)

lemma link_started_eq:
  "start (new_dchannel backup_config) =
     (\<lparr> config = backup_config, state = AWAITING_ESTABLISHMENT, isRunning = True,
        vs = 0, vr = 0, va = 0, retransmissionCount = 0, ownBusy = False, peerBusy = False,
        t200_armed = False, t203_armed = True, acknowledgePending = [],
        emitted = [EvStarted] \<rparr>,
      Returned ())"
  by (simp add: start_eq new_dchannel_def backup_config_def)

lemma link_up_eq:
  "link_up =
     \<lparr> config = backup_config, state = ESTABLISHED, isRunning = True, vs = 0, vr = 0, va = 0,
       retransmissionCount = 0, ownBusy = False, peerBusy = False,
       t200_armed = False, t203_armed = True, acknowledgePending = [],
       emitted = [EvStarted, EvEstablished] \<rparr>"
  by (simp add: link_up_def link_started_def link_started_eq engine_defs parse_ua_zero_fcs
      backup_config_def)

lemma link_acked_eq:
  "link_acked =
     \<lparr> config = backup_config, state = ESTABLISHED, isRunning = True, vs = 0, vr = 0, va = 5,
       retransmissionCount = 0, ownBusy = False, peerBusy = False,
       t200_armed = False, t203_armed = True, acknowledgePending = [],
       emitted = [EvStarted, EvEstablished] \<rparr>"
  by (simp add: link_acked_def link_up_eq engine_defs num_or_0_def parse_rr5_in backup_config_def)

text \<open>
  C3 does not hold of the code. A backup handler is started and established by the peer's
  UA. Sending a Q.931 message on the established link is rejected out of \<^verbatim>\<open>buildLAPDFrame\<close>:
  V(S) stays 0 and nothing is queued. The peer's RR with N(R) = 5 is then taken as it comes:
  V(A) becomes 5 while V(S) is 0 and the queue is empty.
\<close>

theorem acknowledgement_moves_va_past_vs:
  "start (new_dchannel backup_config) = (link_started, Returned ())
   \<and> state link_up = ESTABLISHED
   \<and> sendQ931Message status_enquiry link_up = (link_up, Threw ''ERR_OUT_OF_RANGE'')
   \<and> vs link_up = 0 \<and> va link_up = 0 \<and> acknowledgePending link_up = []
   \<and> state link_acked = ESTABLISHED
   \<and> va link_acked = 5 \<and> vs link_acked = 0 \<and> acknowledgePending link_acked = []"
  by (simp add: link_started_def link_started_eq link_up_eq link_acked_eq sendQ931Message_eq
      isEstablished_def)

subsection \<open>Expiry of T200\<close>



lemma handleT203Timeout_eq: "handleT203Timeout d = d\<lparr> t203_armed := True \<rparr>"
  by (simp add: handleT203Timeout_def sendFrame_throws startT203Timer_def)

subsection \<open>What a handler can reach\<close>

lemma engine_idle_new: "engine_idle (new_dchannel c)"
  by (simp add: engine_idle_def new_dchannel_def)

lemma engine_idle_start: "engine_idle d \<Longrightarrow> engine_idle (fst (start d))"
  by (simp add: start_eq engine_idle_def)

lemma engine_idle_stop: "engine_idle d \<Longrightarrow> engine_idle (stop d)"
  by (simp add: engine_idle_def stop_def emit_def clearAllTimers_def)

lemma engine_idle_updateAcknowledgmentState:
  "engine_idle d \<Longrightarrow> engine_idle (updateAcknowledgmentState n d)"
  by (simp add: engine_idle_def updateAcknowledgmentState_def clearT200Timer_def Let_def)

lemma engine_idle_fields [simp]:
  "engine_idle (d\<lparr> peerBusy := b \<rparr>) = engine_idle d"
  "engine_idle (d\<lparr> vs := n \<rparr>) = engine_idle d"
  "engine_idle (d\<lparr> vr := n \<rparr>) = engine_idle d"
  "engine_idle (d\<lparr> va := n \<rparr>) = engine_idle d"
  "engine_idle (d\<lparr> state := s \<rparr>) = engine_idle d"
  "engine_idle (d\<lparr> t203_armed := b \<rparr>) = engine_idle d"
  "engine_idle (d\<lparr> emitted := evs \<rparr>) = engine_idle d"
  by (simp_all add: engine_idle_def)

lemma engine_idle_processQ931Message:
  "engine_idle d \<Longrightarrow> engine_idle (processQ931Message data d)"
  by (simp add: processQ931Message_def emit_def split: outcome.splits)

lemma engine_idle_processInformationFrame:
  "engine_idle d \<Longrightarrow> engine_idle (processInformationFrame frame d)"
  by (simp add: processInformationFrame_def sendRejectFrame_def sendSupervisoryFrame_def
      sendFrame_throws engine_idle_updateAcknowledgmentState engine_idle_processQ931Message
      Let_def split: option.splits)

lemma engine_idle_processSupervisoryFrame:
  "engine_idle d \<Longrightarrow> engine_idle (processSupervisoryFrame frame d)"
  by (simp add: processSupervisoryFrame_def engine_idle_updateAcknowledgmentState Let_def
      split: option.splits supervisory_type.splits)

lemma engine_idle_processUnnumberedFrame:
  "engine_idle d \<Longrightarrow> engine_idle (processUnnumberedFrame frame d)"
  by (simp add: processUnnumberedFrame_def sendFrame_throws emit_def startT203Timer_def
      clearT200Timer_def engine_idle_def
      split: option.splits unnumbered_type.splits)

lemma engine_idle_processReceivedFrame:
  "engine_idle d \<Longrightarrow> engine_idle (processReceivedFrame frameData d)"
  by (simp add: processReceivedFrame_def dispatchReceivedFrame_def startT203Timer_def
      engine_idle_processInformationFrame engine_idle_processSupervisoryFrame
      engine_idle_processUnnumberedFrame
      split: outcome.splits frame_type.splits)

lemma dchannel_step_idle:
  "engine_idle d \<Longrightarrow> \<exists>d'. dchannel_step op d = Done d' \<and> engine_idle d'"
proof (cases op)
  case (DT200Expiry fuel)
  assume "engine_idle d"
  then show ?thesis
    using DT200Expiry by (simp add: engine_idle_def)
qed (simp_all add: engine_idle_start engine_idle_stop engine_idle_processReceivedFrame
    sendQ931Message_eq handleT203Timeout_eq)

text \<open>
  Whatever is done to a new handler, every operation returns, and afterwards no frame awaits
  acknowledgement, T200 is not armed and the retransmission count is 0: a T200 expiry with
  unacknowledged I-frames never comes about.
\<close>

lemma dchannel_run_idle:
  "engine_idle d \<Longrightarrow> \<exists>d'. dchannel_run ops d = Done d' \<and> engine_idle d'"
proof (induction ops arbitrary: d)
  case Nil
  then show ?case by simp
next
  case (Cons op ops)
  from dchannel_step_idle [OF Cons.prems, of op]
  obtain d1 where s: "dchannel_step op d = Done d1" and i: "engine_idle d1"
    by blast
  from Cons.IH [OF i] show ?case
    using s by simp
qed



section \<open>Properties of the NFAS manager\<close>

lemmas nfas_defs =
  new_nfas_manager_def mgr_emit_def put_group_def put_handler_def new_events_def
  forward_frames_def dchannel_config_for_def is_candidate_def stop_current_def
  record_switchover_def start_if_needed_def performSwitchover_def forceSwitchover_def
  handleDChannelEstablished_def handleDChannelDown_def handleQ931Message_def relay_def
  store_and_relay_def initializeGroup_def nfas_start_def nfas_stop_def find_span_def
  restart_t203_def nfas_processReceivedFrame_def start_handler_def

lemmas observe_defs = group_status_def handler_state_def switchovers_def

lemma nfas_started_eq:
  "group_status 1 nfas_started = Some (Inactive, 1)
   \<and> handler_state 1 1 nfas_started = Some ESTABLISHING
   \<and> handler_state 1 2 nfas_started = Some DOWN"
  by (simp add: observe_defs nfas_started_def nfas_defs two_span_config_def start_eq
      new_dchannel_def Let_def)

lemma nfas_backup_ready_eq:
  "group_status 1 nfas_backup_ready = Some (Inactive, 1)
   \<and> handler_state 1 1 nfas_backup_ready = Some ESTABLISHING
   \<and> handler_state 1 2 nfas_backup_ready = Some ESTABLISHED
   \<and> switchovers 1 nfas_backup_ready = Some 0"
  by (simp add: observe_defs nfas_backup_ready_def nfas_started_def nfas_defs two_span_config_def
      engine_defs sendFrame_throws parse_ua_zero_fcs)

text \<open>
  C6 does not hold of the code. The group has span 1 as its active span, and the backup
  handler of span 2 has been started and established by the peer's UA. The manual switchover
  to span 2 succeeds: the active span becomes 2 and the switchover count goes from 0 to 1.
  The event, however, is built after \<^verbatim>\<open>group.activeSpan\<close> has been overwritten, and carries
  span 2 as the previous span as well as the new one.
\<close>

theorem switchover_event_names_new_span_as_previous:
  "group_status 1 nfas_backup_ready = Some (Inactive, 1)
   \<and> handler_state 1 1 nfas_backup_ready = Some ESTABLISHING
   \<and> handler_state 1 2 nfas_backup_ready = Some ESTABLISHED
   \<and> switchovers 1 nfas_backup_ready = Some 0
   \<and> snd (forceSwitchover 3 1 None nfas_backup_ready) = Returned ()
   \<and> group_status 1 nfas_switched = Some (Active, 2)
   \<and> handler_state 1 2 nfas_switched = Some ESTABLISHED
   \<and> switchovers 1 nfas_switched = Some 1
   \<and> last (mgr_emitted nfas_switched) =
       SwitchoverCompleted \<lparr> so_groupId = 1, so_previousSpan = 2, so_newActiveSpan = 2,
                              so_reason = ''manual'' \<rparr>"
  by (simp add: observe_defs nfas_switched_def nfas_backup_ready_def nfas_started_def nfas_defs
      two_span_config_def engine_defs sendFrame_throws parse_ua_zero_fcs)

text \<open>
  The same on a failover. The group is active on span 1, established by the peer's SABME,
  and span 2 is established; the peer disconnects span 1, and the switchover to span 2
  succeeds, with the event naming span 2 as the previous span.
\<close>

lemma failover_event_names_new_span_as_previous:
  "group_status 1 nfas_backup_up = Some (Active, 1)
   \<and> handler_state 1 1 nfas_backup_up = Some ESTABLISHED
   \<and> handler_state 1 2 nfas_backup_up = Some ESTABLISHED
   \<and> switchovers 1 nfas_backup_up = Some 0
   \<and> group_status 1 nfas_failed_over = Some (Active, 2)
   \<and> switchovers 1 nfas_failed_over = Some 1
   \<and> last (mgr_emitted nfas_failed_over) =
       SwitchoverCompleted \<lparr> so_groupId = 1, so_previousSpan = 2, so_newActiveSpan = 2,
                              so_reason = ''interface_down'' \<rparr>"
  by (simp add: observe_defs nfas_failed_over_def nfas_backup_up_def nfas_primary_up_def
      nfas_started_def nfas_defs two_span_config_def engine_defs sendFrame_throws
      parse_sabme_in parse_disc_in parse_ua_zero_fcs)

subsection \<open>Association lists\<close>




lemma groups_mgr_emit [simp]: "groups (mgr_emit e m) = groups m"
  by (simp add: mgr_emit_def)

lemma groups_forward_frames [simp]: "groups (forward_frames d evs m) = groups m"
  by (simp add: forward_frames_def)

lemma groups_record_switchover [simp]: "groups (record_switchover now gid s m) = groups m"
  by (simp add: record_switchover_def split: option.splits)




subsection \<open>Handlers\<close>

lemma fst_sendFrame [simp]: "fst (sendFrame f d) = d"
  by (simp add: sendFrame_throws)


lemma state_ok_stop: "state_ok d \<Longrightarrow> state_ok (stop d)"
  by (auto simp: state_ok_def stop_def emit_def clearAllTimers_def)




lemma handlers_ok_update [simp]:
  "handlers_ok (g\<lparr> grp_state := x \<rparr>) = handlers_ok g"
  "handlers_ok (g\<lparr> activeSpan := y \<rparr>) = handlers_ok g"
  by (simp_all add: handlers_ok_def)

lemma groupId_stop_current [simp]: "groupId (stop_current g) = groupId g"
  by (simp add: stop_current_def put_handler_def split: option.splits)

lemma activeSpan_stop_current [simp]: "activeSpan (stop_current g) = activeSpan g"
  by (simp add: stop_current_def put_handler_def split: option.splits)

lemma groupId_put_handler [simp]: "groupId (put_handler s d g) = groupId g"
  by (simp add: put_handler_def)

lemma activeSpan_put_handler [simp]: "activeSpan (put_handler s d g) = activeSpan g"
  by (simp add: put_handler_def)



lemma candidates_ok_update [simp]:
  "candidates_ok cs (g\<lparr> grp_state := x \<rparr>) = candidates_ok cs g"
  by (simp add: candidates_ok_def)

subsection \<open>Switchover\<close>











subsection \<open>Listeners\<close>

lemma groups_handleQ931Message [simp]: "groups (handleQ931Message c gid msg m) = groups m"
  by (simp add: handleQ931Message_def split: option.splits)











subsection \<open>What an operation makes of a handler\<close>

















subsection \<open>The operations keep the invariant\<close>
























subsection \<open>The active span of an active group\<close>







end
